theory Spec2Isabelle
  imports Main
begin

section \<open>Python values, exceptions and text\<close>

text \<open>
  The embedding follows \<^verbatim>\<open>ffmpeg_mcp.py\<close> as it runs under CPython on a POSIX
  platform (\<^verbatim>\<open>posixpath\<close>, \<^verbatim>\<open>PosixPath\<close>). A tool argument is a JSON value;
  the code never checks its type, so the model keeps every shape a value can have.
  \<open>VOther ty s\<close> stands for a float, list or dict: \<open>ty\<close> is the name of its Python
  type and \<open>s\<close> is what \<^verbatim>\<open>str()\<close> returns for it. All library functions used by
  the program treat these three alike.
\<close>

datatype pyval = VNone | VBool bool | VInt int | VStr string | VOther string string

text \<open>
  Every exception of the model is a subclass of \<^verbatim>\<open>Exception\<close>, with its message.
  \<open>OSError\<close> covers its subclasses (\<^verbatim>\<open>FileNotFoundError\<close>, \<^verbatim>\<open>PermissionError\<close>);
  \<open>PlainException\<close> is \<^verbatim>\<open>Exception(...)\<close> itself and whatever else the external
  collaborators raise.
\<close>

datatype exn =
    TypeError string
  | ValueError string
  | OverflowError string
  | OSError string
  | PlainException string

fun str_exn :: "exn \<Rightarrow> string" where
  "str_exn (TypeError m) = m"
| "str_exn (ValueError m) = m"
| "str_exn (OverflowError m) = m"
| "str_exn (OSError m) = m"
| "str_exn (PlainException m) = m"

fun str_nat :: "nat \<Rightarrow> string" where
  "str_nat n =
     (if n < 10 then [''0123456789'' ! n]
      else str_nat (n div 10) @ [''0123456789'' ! (n mod 10)])"

declare str_nat.simps [simp del]

definition str_int :: "int \<Rightarrow> string" where
  "str_int i = (if i < 0 then CHR ''-'' # str_nat (nat (- i)) else str_nat (nat i))"

fun type_name :: "pyval \<Rightarrow> string" where
  "type_name VNone = ''NoneType''"
| "type_name (VBool b) = ''bool''"
| "type_name (VInt i) = ''int''"
| "type_name (VStr s) = ''str''"
| "type_name (VOther ty s) = ty"

text \<open>\<^verbatim>\<open>str(v)\<close>, which is also what an f-string field \<^verbatim>\<open>{v}\<close> renders.\<close>

fun py_str :: "pyval \<Rightarrow> string" where
  "py_str VNone = ''None''"
| "py_str (VBool b) = (if b then ''True'' else ''False'')"
| "py_str (VInt i) = str_int i"
| "py_str (VStr s) = s"
| "py_str (VOther ty s) = s"

text \<open>\<^verbatim>\<open>sep.join(xs)\<close>\<close>

fun join_str :: "string \<Rightarrow> string list \<Rightarrow> string" where
  "join_str sep [] = []"
| "join_str sep [x] = x"
| "join_str sep (x # y # ys) = x @ sep @ join_str sep (y # ys)"

text \<open>\<^verbatim>\<open>s.upper()\<close> on ASCII letters (the extensions of the program are ASCII).\<close>

definition upper_char :: "char \<Rightarrow> char" where
  "upper_char c =
     (case map_of (zip ''abcdefghijklmnopqrstuvwxyz'' ''ABCDEFGHIJKLMNOPQRSTUVWXYZ'') c of
        Some u \<Rightarrow> u
      | None \<Rightarrow> c)"

definition upper :: "string \<Rightarrow> string" where
  "upper s = map upper_char s"

text \<open>\<^verbatim>\<open>name.endswith(s)\<close>\<close>

definition ends_with :: "string \<Rightarrow> string \<Rightarrow> bool" where
  "ends_with s name \<longleftrightarrow>
     length s \<le> length name \<and> drop (length name - length s) name = s"

section \<open>Paths\<close>

text \<open>\<^verbatim>\<open>os.fspath\<close>: only a \<^verbatim>\<open>str\<close> is a path among JSON values.\<close>

definition os_fspath :: "pyval \<Rightarrow> exn + string" where
  "os_fspath v =
     (case v of
        VStr s \<Rightarrow> Inr s
      | _ \<Rightarrow> Inl (TypeError (''expected str, bytes or os.PathLike object, not '' @ type_name v)))"

text \<open>
  \<^verbatim>\<open>posixpath.dirname\<close>: the text up to and including the last slash, with the
  trailing slashes removed unless it consists of slashes only. A path without a slash
  has the empty directory name.
\<close>

definition posix_dirname :: "string \<Rightarrow> string" where
  "posix_dirname p =
     (let head = rev (dropWhile (\<lambda>c. c \<noteq> CHR ''/'') (rev p))
      in if head \<noteq> [] \<and> (\<exists>c \<in> set head. c \<noteq> CHR ''/'')
         then rev (dropWhile (\<lambda>c. c = CHR ''/'') (rev head))
         else head)"

definition os_path_dirname :: "pyval \<Rightarrow> exn + string" where
  "os_path_dirname v = (case os_fspath v of Inl e \<Rightarrow> Inl e | Inr p \<Rightarrow> Inr (posix_dirname p))"

text \<open>\<^verbatim>\<open>posixpath.join(a, b)\<close> with \<open>b\<close> a \<^verbatim>\<open>str\<close>.\<close>

definition os_path_join :: "pyval \<Rightarrow> string \<Rightarrow> exn + string" where
  "os_path_join a b =
     (case os_fspath a of
        Inl e \<Rightarrow> Inl e
      | Inr p \<Rightarrow>
          Inr (if b \<noteq> [] \<and> hd b = CHR ''/'' then b
               else if p = [] \<or> last p = CHR ''/'' then p @ b
               else p @ ''/'' @ b))"

text \<open>
  \<^verbatim>\<open>pathlib.PurePosixPath\<close>: a root (empty, one slash, or two slashes when the text
  starts with exactly two) and the components that are neither empty nor a single dot.
\<close>

fun split_slash :: "string \<Rightarrow> string list" where
  "split_slash [] = [[]]"
| "split_slash (c # cs) =
     (if c = CHR ''/'' then [] # split_slash cs
      else (case split_slash cs of
              [] \<Rightarrow> [[c]]
            | x # xs \<Rightarrow> (c # x) # xs))"

type_synonym path = "string \<times> string list"

definition Path :: "string \<Rightarrow> path" where
  "Path s =
     (let n = length (takeWhile (\<lambda>c. c = CHR ''/'') s)
      in (if n = 0 then [] else if n = 2 then ''//'' else ''/'',
          filter (\<lambda>c. c \<noteq> [] \<and> c \<noteq> ''.'') (split_slash s)))"

definition str_path :: "path \<Rightarrow> string" where
  "str_path p =
     (if fst p = [] \<and> snd p = [] then ''.'' else fst p @ join_str ''/'' (snd p))"

text \<open>\<^verbatim>\<open>Path(s).name\<close>: the last component, empty when there is none.\<close>

definition path_name :: "string \<Rightarrow> string" where
  "path_name s = (let parts = snd (Path s) in if parts = [] then [] else last parts)"

text \<open>The child of a directory for an entry name that \<^verbatim>\<open>glob\<close> yields.\<close>

definition child :: "path \<Rightarrow> string \<Rightarrow> path" where
  "child p n = (fst p, snd p @ [n])"

section \<open>The world outside the program\<close>

text \<open>
  The file system and the external binaries are not part of the program. The model
  takes their answers from the fields of a \<open>world\<close> and keeps a log of the effects the
  program has: the directories it asked to create and the command lines it handed to
  \<^verbatim>\<open>subprocess.run\<close> for execution. The answer to an effect may depend on everything
  that happened before it.
\<close>

record completed_process =
  returncode :: int
  stdout :: string
  stderr :: string

datatype proc_outcome = Completed completed_process | Raised exn

datatype event = Mkdirs string | Spawn "string list"

record world =
  path_exists :: "string \<Rightarrow> bool"
  fd_exists :: "int \<Rightarrow> bool"
  path_is_dir :: "string \<Rightarrow> bool"
  dir_entries :: "string \<Rightarrow> string list"
  makedirs_result :: "event list \<Rightarrow> string \<Rightarrow> exn option"
  process_result :: "event list \<Rightarrow> string list \<Rightarrow> proc_outcome"
  json_pretty :: "string \<Rightarrow> exn + string"
  events :: "event list"

text \<open>The command lines handed to the operating system so far.\<close>

fun spawned :: "event list \<Rightarrow> string list list" where
  "spawned [] = []"
| "spawned (Mkdirs d # es) = spawned es"
| "spawned (Spawn cmd # es) = cmd # spawned es"

text \<open>
  \<^verbatim>\<open>os.path.exists\<close>: \<^verbatim>\<open>os.stat\<close> takes a path or a file descriptor (a \<^verbatim>\<open>bool\<close> is an
  \<^verbatim>\<open>int\<close>); \<^verbatim>\<open>OSError\<close> and \<^verbatim>\<open>ValueError\<close> become \<^verbatim>\<open>False\<close>, anything else is
  raised.
\<close>

definition os_path_exists :: "world \<Rightarrow> pyval \<Rightarrow> exn + bool" where
  "os_path_exists w v =
     (case v of
        VStr s \<Rightarrow> Inr (path_exists w s)
      | VInt i \<Rightarrow>
          (if i < - (2 ^ 31) then Inl (OverflowError ''fd is less than minimum'')
           else if 2 ^ 31 \<le> i then Inl (OverflowError ''fd is greater than maximum'')
           else Inr (fd_exists w i))
      | VBool b \<Rightarrow> Inr (fd_exists w (if b then 1 else 0))
      | _ \<Rightarrow> Inl (TypeError (''stat: path should be string, bytes, os.PathLike or integer, not ''
                              @ type_name v)))"

text \<open>
  \<^verbatim>\<open>os.makedirs(d, exist_ok=True)\<close>: the empty path cannot be created
  (\<^verbatim>\<open>mkdir('')\<close> fails with \<^verbatim>\<open>ENOENT\<close> and \<^verbatim>\<open>''\<close> is no directory); for any other
  path the file system decides.
\<close>

definition os_makedirs :: "world \<Rightarrow> string \<Rightarrow> exn option \<times> world" where
  "os_makedirs w d =
     (if d = [] then Some (OSError (''[Errno 2] No such file or directory: '' @ [CHR 0x27, CHR 0x27]))
      else makedirs_result w (events w) d,
      w\<lparr>events := events w @ [Mkdirs d]\<rparr>)"

text \<open>
  \<^verbatim>\<open>subprocess.run(cmd, capture_output=True, text=True)\<close>: an argument that is not a
  path-like value, or that holds a NUL character, is refused before anything is spawned.
\<close>

fun is_str :: "pyval \<Rightarrow> bool" where
  "is_str (VStr s) = True"
| "is_str v = False"

definition subprocess_run :: "world \<Rightarrow> pyval list \<Rightarrow> (exn + completed_process) \<times> world" where
  "subprocess_run w cmd =
     (case filter (\<lambda>v. \<not> is_str v) cmd of
        v # _ \<Rightarrow>
          (Inl (TypeError (''expected str, bytes or os.PathLike object, not '' @ type_name v)), w)
      | [] \<Rightarrow>
          (let args = map py_str cmd
           in if \<exists>a \<in> set args. CHR 0x00 \<in> set a
              then (Inl (ValueError ''embedded null byte''), w)
              else (case process_result w (events w) args of
                      Completed r \<Rightarrow> Inr r
                    | Raised e \<Rightarrow> Inl e,
                    w\<lparr>events := events w @ [Spawn args]\<rparr>)))"


section \<open>FFmpegProcessor\<close>

text \<open>
  \<^verbatim>\<open>check_ffmpeg_available\<close>: the version probe; any exception (a missing binary, the
  10 second timeout) is \<^verbatim>\<open>False\<close>.
\<close>

definition check_ffmpeg_available :: "world \<Rightarrow> bool \<times> world" where
  "check_ffmpeg_available w =
     (case subprocess_run w [VStr ''ffmpeg'', VStr ''-version''] of
        (Inl e, w') \<Rightarrow> (False, w')
      | (Inr r, w') \<Rightarrow> (returncode r = 0, w'))"

text \<open>
  The document \<^verbatim>\<open>json.loads\<close> returns is kept as the text that
  \<^verbatim>\<open>json.dumps(info, indent=2, ensure_ascii=False)\<close> prints for it; \<open>json_pretty\<close> of the
  world is the composition of the two, or the exception of \<^verbatim>\<open>json.loads\<close>.
\<close>

type_synonym json = string

definition json_loads :: "world \<Rightarrow> string \<Rightarrow> exn + json" where
  "json_loads w s = json_pretty w s"

definition json_dumps :: "json \<Rightarrow> string" where
  "json_dumps info = info"

text \<open>
  \<^verbatim>\<open>get_media_info\<close>: every exception of the body, also the one it raises itself on a
  non-zero exit status, is raised again as \<^verbatim>\<open>Exception("Failed to get media info: ...")\<close>.
\<close>

definition get_media_info :: "pyval \<Rightarrow> world \<Rightarrow> (exn + json) \<times> world" where
  "get_media_info file_path w =
     (let cmd = [VStr ''ffprobe'', VStr ''-v'', VStr ''quiet'', VStr ''-print_format'',
                 VStr ''json'', VStr ''-show_format'', VStr ''-show_streams'', file_path];
          (body, w') =
            (case subprocess_run w cmd of
               (Inl e, w') \<Rightarrow> (Inl e, w')
             | (Inr r, w') \<Rightarrow>
                 (if returncode r = 0 then json_loads w' (stdout r)
                  else Inl (PlainException (''FFprobe error: '' @ stderr r)), w'))
      in (case body of
            Inl e \<Rightarrow> Inl (PlainException (''Failed to get media info: '' @ str_exn e))
          | Inr info \<Rightarrow> Inr info,
          w'))"

text \<open>
  The six transcoding functions share one body: inside \<^verbatim>\<open>try\<close>, create the directory
  of the output path, build the command, run it and return whether the exit status is
  zero; \<^verbatim>\<open>except Exception: return False\<close>. Building the command cannot raise, so the
  command is passed in built.
\<close>

definition makedirs_then_run :: "pyval \<Rightarrow> pyval list \<Rightarrow> world \<Rightarrow> bool \<times> world" where
  "makedirs_then_run output_path cmd w =
     (case os_path_dirname output_path of
        Inl e \<Rightarrow> (False, w)
      | Inr d \<Rightarrow>
          (case os_makedirs w d of
             (Some e, w1) \<Rightarrow> (False, w1)
           | (None, w1) \<Rightarrow>
               (case subprocess_run w1 cmd of
                  (Inl e, w2) \<Rightarrow> (False, w2)
                | (Inr r, w2) \<Rightarrow> (returncode r = 0, w2))))"

definition compress_image :: "pyval \<Rightarrow> pyval \<Rightarrow> pyval \<Rightarrow> world \<Rightarrow> bool \<times> world" where
  "compress_image input_path output_path quality =
     makedirs_then_run output_path
       [VStr ''ffmpeg'', VStr ''-y'', VStr ''-i'', input_path,
        VStr ''-q:v'', VStr (py_str quality),
        output_path]"

definition convert_image_format :: "pyval \<Rightarrow> pyval \<Rightarrow> world \<Rightarrow> bool \<times> world" where
  "convert_image_format input_path output_path =
     makedirs_then_run output_path
       [VStr ''ffmpeg'', VStr ''-y'', VStr ''-i'', input_path, output_path]"

definition resize_image :: "pyval \<Rightarrow> pyval \<Rightarrow> pyval \<Rightarrow> pyval \<Rightarrow> world \<Rightarrow> bool \<times> world" where
  "resize_image input_path output_path width height =
     makedirs_then_run output_path
       [VStr ''ffmpeg'', VStr ''-y'', VStr ''-i'', input_path,
        VStr ''-vf'', VStr (''scale='' @ py_str width @ '':'' @ py_str height),
        output_path]"

definition compress_video :: "pyval \<Rightarrow> pyval \<Rightarrow> pyval \<Rightarrow> pyval \<Rightarrow> world \<Rightarrow> bool \<times> world" where
  "compress_video input_path output_path crf preset =
     makedirs_then_run output_path
       [VStr ''ffmpeg'', VStr ''-y'', VStr ''-i'', input_path,
        VStr ''-c:v'', VStr ''libx264'', VStr ''-crf'', VStr (py_str crf), VStr ''-preset'', preset,
        VStr ''-c:a'', VStr ''aac'', VStr ''-b:a'', VStr ''128k'',
        output_path]"

definition convert_video_format :: "pyval \<Rightarrow> pyval \<Rightarrow> world \<Rightarrow> bool \<times> world" where
  "convert_video_format input_path output_path =
     makedirs_then_run output_path
       [VStr ''ffmpeg'', VStr ''-y'', VStr ''-i'', input_path, output_path]"

definition resize_video :: "pyval \<Rightarrow> pyval \<Rightarrow> pyval \<Rightarrow> pyval \<Rightarrow> world \<Rightarrow> bool \<times> world" where
  "resize_video input_path output_path width height =
     makedirs_then_run output_path
       [VStr ''ffmpeg'', VStr ''-y'', VStr ''-i'', input_path,
        VStr ''-vf'', VStr (''scale='' @ py_str width @ '':'' @ py_str height),
        VStr ''-c:a'', VStr ''copy'',
        output_path]"

section \<open>FileManager\<close>

text \<open>
  \<^verbatim>\<open>path.glob(pattern)\<close> for a pattern made of one star and literal characters: the
  entries directly inside the directory whose name ends with the literal part, compared
  character by character (the POSIX flavour is case-sensitive), in the order the
  directory lists them.
\<close>

definition fnmatch_star :: "string \<Rightarrow> string \<Rightarrow> bool" where
  "fnmatch_star pattern n =
     (case pattern of [] \<Rightarrow> n = [] | c # lit \<Rightarrow> c = CHR ''*'' \<and> ends_with lit n)"

definition glob :: "world \<Rightarrow> path \<Rightarrow> string \<Rightarrow> path list" where
  "glob w p pattern = map (child p) (filter (fnmatch_star pattern) (dir_entries w (str_path p)))"

definition get_files_by_extension :: "world \<Rightarrow> pyval \<Rightarrow> string list \<Rightarrow> exn + string list" where
  "get_files_by_extension w directory extensions =
     (case os_fspath directory of
        Inl e \<Rightarrow> Inl e
      | Inr s \<Rightarrow>
          (let p = Path s;
               files =
                 (if path_exists w (str_path p) \<and> path_is_dir w (str_path p)
                  then concat (map (\<lambda>ext. glob w p (''*.'' @ ext) @ glob w p (''*.'' @ upper ext))
                                   extensions)
                  else [])
           in Inr (map str_path files)))"

definition image_extensions :: "string list" where
  "image_extensions = [''jpg'', ''jpeg'', ''png'', ''bmp'', ''gif'', ''tiff'', ''webp'']"

definition video_extensions :: "string list" where
  "video_extensions = [''mp4'', ''avi'', ''mkv'', ''mov'', ''wmv'', ''flv'', ''webm'', ''m4v'']"

definition all_extensions :: "string list" where
  "all_extensions = image_extensions @ video_extensions"

text \<open>
  The result dictionary of a batch. The field of the key \<^verbatim>\<open>"total"\<close> is \<open>total_count\<close>.
\<close>

record batch_results =
  success :: "string list"
  failed :: "string list"
  total_count :: nat

text \<open>
  \<open>process_func\<close> with its keyword arguments applied: it may return a truth value or
  raise.
\<close>

type_synonym process_func = "string \<Rightarrow> string \<Rightarrow> world \<Rightarrow> (exn + bool) \<times> world"

text \<open>
  The body of the \<^verbatim>\<open>try\<close> in the loop of \<^verbatim>\<open>batch_process_files\<close>, up to the truth
  value that the \<^verbatim>\<open>if\<close> tests: \<^verbatim>\<open>os.path.join\<close> and the call of \<open>process_func\<close> may
  raise.
\<close>

definition try_process ::
  "process_func \<Rightarrow> pyval \<Rightarrow> string \<Rightarrow> world \<Rightarrow> (exn + bool) \<times> world"
where
  "try_process process_func output_dir file_path w =
     (let file_name = path_name file_path
      in case os_path_join output_dir file_name of
           Inl e \<Rightarrow> (Inl e, w)
         | Inr output_path \<Rightarrow> process_func file_path output_path w)"

text \<open>
  The loop: the name goes to \<^verbatim>\<open>"success"\<close> on a true value and to \<^verbatim>\<open>"failed"\<close> on a
  false one; the handler appends the name with the message of the exception.
\<close>

fun batch_loop ::
  "process_func \<Rightarrow> pyval \<Rightarrow> string list \<Rightarrow> batch_results \<Rightarrow> world \<Rightarrow> batch_results \<times> world"
where
  "batch_loop process_func output_dir [] results w = (results, w)"
| "batch_loop process_func output_dir (file_path # rest) results w =
     (case try_process process_func output_dir file_path w of
        (Inr True, w') \<Rightarrow>
          batch_loop process_func output_dir rest
            (results\<lparr>success := success results @ [path_name file_path]\<rparr>) w'
      | (Inr False, w') \<Rightarrow>
          batch_loop process_func output_dir rest
            (results\<lparr>failed := failed results @ [path_name file_path]\<rparr>) w'
      | (Inl e, w') \<Rightarrow>
          batch_loop process_func output_dir rest
            (results\<lparr>failed := failed results @ [path_name file_path @ '': '' @ str_exn e]\<rparr>) w')"

definition batch_process_files ::
  "pyval \<Rightarrow> pyval \<Rightarrow> process_func \<Rightarrow> world \<Rightarrow> (exn + batch_results) \<times> world"
where
  "batch_process_files input_dir output_dir process_func w =
     (case get_files_by_extension w input_dir all_extensions of
        Inl e \<Rightarrow> (Inl e, w)
      | Inr files \<Rightarrow>
          (case batch_loop process_func output_dir files
                  \<lparr>success = [], failed = [], total_count = length files\<rparr> w of
             (results, w') \<Rightarrow> (Inr results, w')))"


section \<open>The tool catalogue\<close>

text \<open>
  \<^verbatim>\<open>handle_list_tools\<close>: the name of each tool and, from its input schema, the
  properties (name, JSON type, default) and the list of required properties. The
  descriptions are documentation only and are left out.
\<close>

record tool =
  tool_name :: string
  tool_properties :: "(string \<times> string \<times> pyval option) list"
  tool_required :: "string list"

definition handle_list_tools :: "tool list" where
  "handle_list_tools =
     [\<lparr>tool_name = ''compress_image'',
       tool_properties = [(''input_path'', ''string'', None), (''output_path'', ''string'', None),
                          (''quality'', ''integer'', Some (VInt 85))],
       tool_required = [''input_path'', ''output_path'']\<rparr>,
      \<lparr>tool_name = ''batch_compress_images'',
       tool_properties = [(''input_dir'', ''string'', None), (''output_dir'', ''string'', None),
                          (''quality'', ''integer'', Some (VInt 85))],
       tool_required = [''input_dir'', ''output_dir'']\<rparr>,
      \<lparr>tool_name = ''convert_image_format'',
       tool_properties = [(''input_path'', ''string'', None), (''output_path'', ''string'', None)],
       tool_required = [''input_path'', ''output_path'']\<rparr>,
      \<lparr>tool_name = ''resize_image'',
       tool_properties = [(''input_path'', ''string'', None), (''output_path'', ''string'', None),
                          (''width'', ''integer'', None), (''height'', ''integer'', None)],
       tool_required = [''input_path'', ''output_path'', ''width'', ''height'']\<rparr>,
      \<lparr>tool_name = ''compress_video'',
       tool_properties = [(''input_path'', ''string'', None), (''output_path'', ''string'', None),
                          (''crf'', ''integer'', Some (VInt 23)),
                          (''preset'', ''string'', Some (VStr ''medium''))],
       tool_required = [''input_path'', ''output_path'']\<rparr>,
      \<lparr>tool_name = ''batch_compress_videos'',
       tool_properties = [(''input_dir'', ''string'', None), (''output_dir'', ''string'', None),
                          (''crf'', ''integer'', Some (VInt 23)),
                          (''preset'', ''string'', Some (VStr ''medium''))],
       tool_required = [''input_dir'', ''output_dir'']\<rparr>,
      \<lparr>tool_name = ''convert_video_format'',
       tool_properties = [(''input_path'', ''string'', None), (''output_path'', ''string'', None)],
       tool_required = [''input_path'', ''output_path'']\<rparr>,
      \<lparr>tool_name = ''resize_video'',
       tool_properties = [(''input_path'', ''string'', None), (''output_path'', ''string'', None),
                          (''width'', ''integer'', None), (''height'', ''integer'', None)],
       tool_required = [''input_path'', ''output_path'', ''width'', ''height'']\<rparr>,
      \<lparr>tool_name = ''get_media_info'',
       tool_properties = [(''file_path'', ''string'', None)],
       tool_required = [''file_path'']\<rparr>,
      \<lparr>tool_name = ''check_ffmpeg_status'',
       tool_properties = [],
       tool_required = []\<rparr>]"

section \<open>The texts of the replies\<close>

text \<open>
  The literals of the program are Chinese; a \<open>string\<close> holds bytes, so each literal is
  given by its UTF-8 encoding, with its meaning beside it.
\<close>

definition msg_input_file_missing :: string where
  \<comment> \<open>UTF-8 bytes of the literal meaning: error: input file does not exist: \<close>
  "msg_input_file_missing =
     [CHR 0xE9, CHR 0x94, CHR 0x99, CHR 0xE8, CHR 0xAF, CHR 0xAF, CHR 0xEF, CHR 0xBC,
     CHR 0x9A, CHR 0xE8, CHR 0xBE, CHR 0x93, CHR 0xE5, CHR 0x85, CHR 0xA5, CHR 0xE6,
     CHR 0x96, CHR 0x87, CHR 0xE4, CHR 0xBB, CHR 0xB6, CHR 0xE4, CHR 0xB8, CHR 0x8D,
     CHR 0xE5, CHR 0xAD, CHR 0x98, CHR 0xE5, CHR 0x9C, CHR 0xA8] @ '': ''"

definition msg_input_dir_missing :: string where
  \<comment> \<open>UTF-8 bytes of the literal meaning: error: input directory does not exist: \<close>
  "msg_input_dir_missing =
     [CHR 0xE9, CHR 0x94, CHR 0x99, CHR 0xE8, CHR 0xAF, CHR 0xAF, CHR 0xEF, CHR 0xBC,
     CHR 0x9A, CHR 0xE8, CHR 0xBE, CHR 0x93, CHR 0xE5, CHR 0x85, CHR 0xA5, CHR 0xE7,
     CHR 0x9B, CHR 0xAE, CHR 0xE5, CHR 0xBD, CHR 0x95, CHR 0xE4, CHR 0xB8, CHR 0x8D,
     CHR 0xE5, CHR 0xAD, CHR 0x98, CHR 0xE5, CHR 0x9C, CHR 0xA8] @ '': ''"

definition msg_file_missing :: string where
  \<comment> \<open>UTF-8 bytes of the literal meaning: error: file does not exist: \<close>
  "msg_file_missing =
     [CHR 0xE9, CHR 0x94, CHR 0x99, CHR 0xE8, CHR 0xAF, CHR 0xAF, CHR 0xEF, CHR 0xBC,
     CHR 0x9A, CHR 0xE6, CHR 0x96, CHR 0x87, CHR 0xE4, CHR 0xBB, CHR 0xB6, CHR 0xE4,
     CHR 0xB8, CHR 0x8D, CHR 0xE5, CHR 0xAD, CHR 0x98, CHR 0xE5, CHR 0x9C, CHR 0xA8] @
     '': ''"

definition msg_image_compress_ok :: string where
  \<comment> \<open>UTF-8 bytes of the literal meaning: image compression succeeded:\<close>
  "msg_image_compress_ok =
     [CHR 0xE5, CHR 0x9B, CHR 0xBE, CHR 0xE7, CHR 0x89, CHR 0x87, CHR 0xE5, CHR 0x8E,
     CHR 0x8B, CHR 0xE7, CHR 0xBC, CHR 0xA9, CHR 0xE6, CHR 0x88, CHR 0x90, CHR 0xE5,
     CHR 0x8A, CHR 0x9F, CHR 0xEF, CHR 0xBC, CHR 0x9A]"

definition msg_image_compress_failed :: string where
  \<comment> \<open>UTF-8 bytes of the literal meaning: image compression failed:\<close>
  "msg_image_compress_failed =
     [CHR 0xE5, CHR 0x9B, CHR 0xBE, CHR 0xE7, CHR 0x89, CHR 0x87, CHR 0xE5, CHR 0x8E,
     CHR 0x8B, CHR 0xE7, CHR 0xBC, CHR 0xA9, CHR 0xE5, CHR 0xA4, CHR 0xB1, CHR 0xE8,
     CHR 0xB4, CHR 0xA5, CHR 0xEF, CHR 0xBC, CHR 0x9A]"

definition msg_image_convert_ok :: string where
  \<comment> \<open>UTF-8 bytes of the literal meaning: image format conversion succeeded:\<close>
  "msg_image_convert_ok =
     [CHR 0xE5, CHR 0x9B, CHR 0xBE, CHR 0xE7, CHR 0x89, CHR 0x87, CHR 0xE6, CHR 0xA0,
     CHR 0xBC, CHR 0xE5, CHR 0xBC, CHR 0x8F, CHR 0xE8, CHR 0xBD, CHR 0xAC, CHR 0xE6,
     CHR 0x8D, CHR 0xA2, CHR 0xE6, CHR 0x88, CHR 0x90, CHR 0xE5, CHR 0x8A, CHR 0x9F,
     CHR 0xEF, CHR 0xBC, CHR 0x9A]"

definition msg_image_convert_failed :: string where
  \<comment> \<open>UTF-8 bytes of the literal meaning: image format conversion failed:\<close>
  "msg_image_convert_failed =
     [CHR 0xE5, CHR 0x9B, CHR 0xBE, CHR 0xE7, CHR 0x89, CHR 0x87, CHR 0xE6, CHR 0xA0,
     CHR 0xBC, CHR 0xE5, CHR 0xBC, CHR 0x8F, CHR 0xE8, CHR 0xBD, CHR 0xAC, CHR 0xE6,
     CHR 0x8D, CHR 0xA2, CHR 0xE5, CHR 0xA4, CHR 0xB1, CHR 0xE8, CHR 0xB4, CHR 0xA5,
     CHR 0xEF, CHR 0xBC, CHR 0x9A]"

definition msg_image_resize_ok :: string where
  \<comment> \<open>UTF-8 bytes of the literal meaning: image resize succeeded:\<close>
  "msg_image_resize_ok =
     [CHR 0xE5, CHR 0x9B, CHR 0xBE, CHR 0xE7, CHR 0x89, CHR 0x87, CHR 0xE5, CHR 0xB0,
     CHR 0xBA, CHR 0xE5, CHR 0xAF, CHR 0xB8, CHR 0xE8, CHR 0xB0, CHR 0x83, CHR 0xE6,
     CHR 0x95, CHR 0xB4, CHR 0xE6, CHR 0x88, CHR 0x90, CHR 0xE5, CHR 0x8A, CHR 0x9F,
     CHR 0xEF, CHR 0xBC, CHR 0x9A]"

definition msg_image_resize_failed :: string where
  \<comment> \<open>UTF-8 bytes of the literal meaning: image resize failed:\<close>
  "msg_image_resize_failed =
     [CHR 0xE5, CHR 0x9B, CHR 0xBE, CHR 0xE7, CHR 0x89, CHR 0x87, CHR 0xE5, CHR 0xB0,
     CHR 0xBA, CHR 0xE5, CHR 0xAF, CHR 0xB8, CHR 0xE8, CHR 0xB0, CHR 0x83, CHR 0xE6,
     CHR 0x95, CHR 0xB4, CHR 0xE5, CHR 0xA4, CHR 0xB1, CHR 0xE8, CHR 0xB4, CHR 0xA5,
     CHR 0xEF, CHR 0xBC, CHR 0x9A]"

definition msg_video_compress_ok :: string where
  \<comment> \<open>UTF-8 bytes of the literal meaning: video compression succeeded:\<close>
  "msg_video_compress_ok =
     [CHR 0xE8, CHR 0xA7, CHR 0x86, CHR 0xE9, CHR 0xA2, CHR 0x91, CHR 0xE5, CHR 0x8E,
     CHR 0x8B, CHR 0xE7, CHR 0xBC, CHR 0xA9, CHR 0xE6, CHR 0x88, CHR 0x90, CHR 0xE5,
     CHR 0x8A, CHR 0x9F, CHR 0xEF, CHR 0xBC, CHR 0x9A]"

definition msg_video_compress_failed :: string where
  \<comment> \<open>UTF-8 bytes of the literal meaning: video compression failed:\<close>
  "msg_video_compress_failed =
     [CHR 0xE8, CHR 0xA7, CHR 0x86, CHR 0xE9, CHR 0xA2, CHR 0x91, CHR 0xE5, CHR 0x8E,
     CHR 0x8B, CHR 0xE7, CHR 0xBC, CHR 0xA9, CHR 0xE5, CHR 0xA4, CHR 0xB1, CHR 0xE8,
     CHR 0xB4, CHR 0xA5, CHR 0xEF, CHR 0xBC, CHR 0x9A]"

definition msg_video_convert_ok :: string where
  \<comment> \<open>UTF-8 bytes of the literal meaning: video format conversion succeeded:\<close>
  "msg_video_convert_ok =
     [CHR 0xE8, CHR 0xA7, CHR 0x86, CHR 0xE9, CHR 0xA2, CHR 0x91, CHR 0xE6, CHR 0xA0,
     CHR 0xBC, CHR 0xE5, CHR 0xBC, CHR 0x8F, CHR 0xE8, CHR 0xBD, CHR 0xAC, CHR 0xE6,
     CHR 0x8D, CHR 0xA2, CHR 0xE6, CHR 0x88, CHR 0x90, CHR 0xE5, CHR 0x8A, CHR 0x9F,
     CHR 0xEF, CHR 0xBC, CHR 0x9A]"

definition msg_video_convert_failed :: string where
  \<comment> \<open>UTF-8 bytes of the literal meaning: video format conversion failed:\<close>
  "msg_video_convert_failed =
     [CHR 0xE8, CHR 0xA7, CHR 0x86, CHR 0xE9, CHR 0xA2, CHR 0x91, CHR 0xE6, CHR 0xA0,
     CHR 0xBC, CHR 0xE5, CHR 0xBC, CHR 0x8F, CHR 0xE8, CHR 0xBD, CHR 0xAC, CHR 0xE6,
     CHR 0x8D, CHR 0xA2, CHR 0xE5, CHR 0xA4, CHR 0xB1, CHR 0xE8, CHR 0xB4, CHR 0xA5,
     CHR 0xEF, CHR 0xBC, CHR 0x9A]"

definition msg_video_resize_ok :: string where
  \<comment> \<open>UTF-8 bytes of the literal meaning: video resize succeeded:\<close>
  "msg_video_resize_ok =
     [CHR 0xE8, CHR 0xA7, CHR 0x86, CHR 0xE9, CHR 0xA2, CHR 0x91, CHR 0xE5, CHR 0xB0,
     CHR 0xBA, CHR 0xE5, CHR 0xAF, CHR 0xB8, CHR 0xE8, CHR 0xB0, CHR 0x83, CHR 0xE6,
     CHR 0x95, CHR 0xB4, CHR 0xE6, CHR 0x88, CHR 0x90, CHR 0xE5, CHR 0x8A, CHR 0x9F,
     CHR 0xEF, CHR 0xBC, CHR 0x9A]"

definition msg_video_resize_failed :: string where
  \<comment> \<open>UTF-8 bytes of the literal meaning: video resize failed:\<close>
  "msg_video_resize_failed =
     [CHR 0xE8, CHR 0xA7, CHR 0x86, CHR 0xE9, CHR 0xA2, CHR 0x91, CHR 0xE5, CHR 0xB0,
     CHR 0xBA, CHR 0xE5, CHR 0xAF, CHR 0xB8, CHR 0xE8, CHR 0xB0, CHR 0x83, CHR 0xE6,
     CHR 0x95, CHR 0xB4, CHR 0xE5, CHR 0xA4, CHR 0xB1, CHR 0xE8, CHR 0xB4, CHR 0xA5,
     CHR 0xEF, CHR 0xBC, CHR 0x9A]"

definition msg_batch_images_done :: string where
  \<comment> \<open>UTF-8 bytes of the literal meaning: batch image compression finished! (newline) total: \<close>
  "msg_batch_images_done =
     [CHR 0xE6, CHR 0x89, CHR 0xB9, CHR 0xE9, CHR 0x87, CHR 0x8F, CHR 0xE5, CHR 0x9B,
     CHR 0xBE, CHR 0xE7, CHR 0x89, CHR 0x87, CHR 0xE5, CHR 0x8E, CHR 0x8B, CHR 0xE7,
     CHR 0xBC, CHR 0xA9, CHR 0xE5, CHR 0xAE, CHR 0x8C, CHR 0xE6, CHR 0x88, CHR 0x90,
     CHR 0xEF, CHR 0xBC, CHR 0x81, CHR 0x0A, CHR 0xE6, CHR 0x80, CHR 0xBB, CHR 0xE8,
     CHR 0xAE, CHR 0xA1] @ '': ''"

definition msg_batch_videos_done :: string where
  \<comment> \<open>UTF-8 bytes of the literal meaning: batch video compression finished! (newline) total: \<close>
  "msg_batch_videos_done =
     [CHR 0xE6, CHR 0x89, CHR 0xB9, CHR 0xE9, CHR 0x87, CHR 0x8F, CHR 0xE8, CHR 0xA7,
     CHR 0x86, CHR 0xE9, CHR 0xA2, CHR 0x91, CHR 0xE5, CHR 0x8E, CHR 0x8B, CHR 0xE7,
     CHR 0xBC, CHR 0xA9, CHR 0xE5, CHR 0xAE, CHR 0x8C, CHR 0xE6, CHR 0x88, CHR 0x90,
     CHR 0xEF, CHR 0xBC, CHR 0x81, CHR 0x0A, CHR 0xE6, CHR 0x80, CHR 0xBB, CHR 0xE8,
     CHR 0xAE, CHR 0xA1] @ '': ''"

definition msg_files_success :: string where
  \<comment> \<open>UTF-8 bytes of the literal meaning:  files (newline) succeeded: \<close>
  "msg_files_success =
     '' '' @ [CHR 0xE4, CHR 0xB8, CHR 0xAA, CHR 0xE6, CHR 0x96, CHR 0x87, CHR 0xE4,
     CHR 0xBB, CHR 0xB6, CHR 0x0A, CHR 0xE6, CHR 0x88, CHR 0x90, CHR 0xE5, CHR 0x8A,
     CHR 0x9F] @ '': ''"

definition msg_count_failed :: string where
  \<comment> \<open>UTF-8 bytes of the literal meaning:  (counter word) (newline) failed: \<close>
  "msg_count_failed =
     '' '' @ [CHR 0xE4, CHR 0xB8, CHR 0xAA, CHR 0x0A, CHR 0xE5, CHR 0xA4, CHR 0xB1,
     CHR 0xE8, CHR 0xB4, CHR 0xA5] @ '': ''"

definition msg_count_end :: string where
  \<comment> \<open>UTF-8 bytes of the literal meaning:  (counter word)\<close>
  "msg_count_end =
     '' '' @ [CHR 0xE4, CHR 0xB8, CHR 0xAA]"

definition msg_failed_files :: string where
  \<comment> \<open>UTF-8 bytes of the literal meaning:  (newline) failed files: \<close>
  "msg_failed_files =
     [CHR 0x0A, CHR 0xE5, CHR 0xA4, CHR 0xB1, CHR 0xE8, CHR 0xB4, CHR 0xA5, CHR 0xE7,
     CHR 0x9A, CHR 0x84, CHR 0xE6, CHR 0x96, CHR 0x87, CHR 0xE4, CHR 0xBB, CHR 0xB6] @
     '': ''"

definition msg_media_info_failed :: string where
  \<comment> \<open>UTF-8 bytes of the literal meaning: getting media info failed:\<close>
  "msg_media_info_failed =
     [CHR 0xE8, CHR 0x8E, CHR 0xB7, CHR 0xE5, CHR 0x8F, CHR 0x96, CHR 0xE5, CHR 0xAA,
     CHR 0x92, CHR 0xE4, CHR 0xBD, CHR 0x93, CHR 0xE4, CHR 0xBF, CHR 0xA1, CHR 0xE6,
     CHR 0x81, CHR 0xAF, CHR 0xE5, CHR 0xA4, CHR 0xB1, CHR 0xE8, CHR 0xB4, CHR 0xA5,
     CHR 0xEF, CHR 0xBC, CHR 0x9A]"

definition msg_ffmpeg_available :: string where
  \<comment> \<open>UTF-8 bytes of the literal meaning: FFmpeg is installed and available\<close>
  "msg_ffmpeg_available =
     ''FFmpeg '' @ [CHR 0xE5, CHR 0xB7, CHR 0xB2, CHR 0xE5, CHR 0xAE, CHR 0x89, CHR 0xE8,
     CHR 0xA3, CHR 0x85, CHR 0xE5, CHR 0xB9, CHR 0xB6, CHR 0xE5, CHR 0x8F, CHR 0xAF,
     CHR 0xE7, CHR 0x94, CHR 0xA8]"

definition msg_ffmpeg_unavailable :: string where
  \<comment> \<open>UTF-8 bytes of the literal meaning: FFmpeg is not installed or unavailable, please install FFmpeg first\<close>
  "msg_ffmpeg_unavailable =
     ''FFmpeg '' @ [CHR 0xE6, CHR 0x9C, CHR 0xAA, CHR 0xE5, CHR 0xAE, CHR 0x89, CHR 0xE8,
     CHR 0xA3, CHR 0x85, CHR 0xE6, CHR 0x88, CHR 0x96, CHR 0xE4, CHR 0xB8, CHR 0x8D,
     CHR 0xE5, CHR 0x8F, CHR 0xAF, CHR 0xE7, CHR 0x94, CHR 0xA8, CHR 0xEF, CHR 0xBC,
     CHR 0x8C, CHR 0xE8, CHR 0xAF, CHR 0xB7, CHR 0xE5, CHR 0x85, CHR 0x88, CHR 0xE5,
     CHR 0xAE, CHR 0x89, CHR 0xE8, CHR 0xA3, CHR 0x85] @ ''FFmpeg''"

definition msg_unknown_tool :: string where
  \<comment> \<open>UTF-8 bytes of the literal meaning: unknown tool name: \<close>
  "msg_unknown_tool =
     [CHR 0xE6, CHR 0x9C, CHR 0xAA, CHR 0xE7, CHR 0x9F, CHR 0xA5, CHR 0xE7, CHR 0x9A,
     CHR 0x84, CHR 0xE5, CHR 0xB7, CHR 0xA5, CHR 0xE5, CHR 0x85, CHR 0xB7, CHR 0xE5,
     CHR 0x90, CHR 0x8D, CHR 0xE7, CHR 0xA7, CHR 0xB0] @ '': ''"

definition msg_tool_error :: string where
  \<comment> \<open>UTF-8 bytes of the literal meaning: tool execution error: \<close>
  "msg_tool_error =
     [CHR 0xE5, CHR 0xB7, CHR 0xA5, CHR 0xE5, CHR 0x85, CHR 0xB7, CHR 0xE6, CHR 0x89,
     CHR 0xA7, CHR 0xE8, CHR 0xA1, CHR 0x8C, CHR 0xE5, CHR 0x87, CHR 0xBA, CHR 0xE9,
     CHR 0x94, CHR 0x99] @ '': ''"

section \<open>The dispatcher\<close>

datatype content = TextContent (content_type: string) (content_text: string)

type_synonym arguments = "string \<rightharpoonup> pyval"

text \<open>\<^verbatim>\<open>arguments.get(k)\<close> and \<^verbatim>\<open>arguments.get(k, d)\<close>\<close>

definition dict_get :: "arguments \<Rightarrow> string \<Rightarrow> pyval" where
  "dict_get a k = (case a k of None \<Rightarrow> VNone | Some v \<Rightarrow> v)"

definition dict_get_default :: "arguments \<Rightarrow> string \<Rightarrow> pyval \<Rightarrow> pyval" where
  "dict_get_default a k d = (case a k of None \<Rightarrow> d | Some v \<Rightarrow> v)"

text \<open>
  The branch of a single-file tool: the existence check of the input path, the
  operation, and the reply for its truth value.
\<close>

definition single_file_branch ::
  "world \<Rightarrow> pyval \<Rightarrow> (world \<Rightarrow> bool \<times> world) \<Rightarrow> string \<Rightarrow> string \<Rightarrow> (exn + content list) \<times> world"
where
  "single_file_branch w input_path operation ok_text failed_text =
     (case os_path_exists w input_path of
        Inl e \<Rightarrow> (Inl e, w)
      | Inr False \<Rightarrow>
          (Inr [TextContent ''text'' (msg_input_file_missing @ py_str input_path)], w)
      | Inr True \<Rightarrow>
          (case operation w of
             (succeeded, w') \<Rightarrow>
               (Inr [TextContent ''text'' (if succeeded then ok_text else failed_text)], w')))"

text \<open>The summary of a batch.\<close>

definition batch_message :: "string \<Rightarrow> batch_results \<Rightarrow> string" where
  "batch_message done_text results =
     done_text @ str_nat (total_count results)
     @ msg_files_success @ str_nat (length (success results))
     @ msg_count_failed @ str_nat (length (failed results)) @ msg_count_end
     @ (if failed results \<noteq> [] then msg_failed_files @ join_str '', '' (failed results) else [])"

text \<open>A transcoding function with its keyword arguments, as the batch runner calls it.\<close>

definition as_process_func :: "(pyval \<Rightarrow> pyval \<Rightarrow> world \<Rightarrow> bool \<times> world) \<Rightarrow> process_func" where
  "as_process_func operation file_path output_path w =
     (case operation (VStr file_path) (VStr output_path) w of (b, w') \<Rightarrow> (Inr b, w'))"

definition batch_branch ::
  "world \<Rightarrow> pyval \<Rightarrow> pyval \<Rightarrow> process_func \<Rightarrow> string \<Rightarrow> (exn + content list) \<times> world"
where
  "batch_branch w input_dir output_dir process_func done_text =
     (case os_path_exists w input_dir of
        Inl e \<Rightarrow> (Inl e, w)
      | Inr False \<Rightarrow>
          (Inr [TextContent ''text'' (msg_input_dir_missing @ py_str input_dir)], w)
      | Inr True \<Rightarrow>
          (case batch_process_files input_dir output_dir process_func w of
             (Inl e, w') \<Rightarrow> (Inl e, w')
           | (Inr results, w') \<Rightarrow>
               (Inr [TextContent ''text'' (batch_message done_text results)], w')))"

text \<open>The body of the \<^verbatim>\<open>try\<close> of \<^verbatim>\<open>handle_call_tool\<close>: \<open>Inl\<close> is an exception it raises.\<close>

definition call_tool_body :: "world \<Rightarrow> string \<Rightarrow> arguments \<Rightarrow> (exn + content list) \<times> world" where
  "call_tool_body w name arguments =
     (if name = ''compress_image'' then
        (let input_path = dict_get arguments ''input_path'';
             output_path = dict_get arguments ''output_path'';
             quality = dict_get_default arguments ''quality'' (VInt 85)
         in single_file_branch w input_path (compress_image input_path output_path quality)
              (msg_image_compress_ok @ py_str input_path @ '' -> '' @ py_str output_path)
              (msg_image_compress_failed @ py_str input_path))
      else if name = ''batch_compress_images'' then
        (let input_dir = dict_get arguments ''input_dir'';
             output_dir = dict_get arguments ''output_dir'';
             quality = dict_get_default arguments ''quality'' (VInt 85)
         in batch_branch w input_dir output_dir
              (as_process_func (\<lambda>i out. compress_image i out quality))
              msg_batch_images_done)
      else if name = ''convert_image_format'' then
        (let input_path = dict_get arguments ''input_path'';
             output_path = dict_get arguments ''output_path''
         in single_file_branch w input_path (convert_image_format input_path output_path)
              (msg_image_convert_ok @ py_str input_path @ '' -> '' @ py_str output_path)
              (msg_image_convert_failed @ py_str input_path))
      else if name = ''resize_image'' then
        (let input_path = dict_get arguments ''input_path'';
             output_path = dict_get arguments ''output_path'';
             width = dict_get arguments ''width'';
             height = dict_get arguments ''height''
         in single_file_branch w input_path (resize_image input_path output_path width height)
              (msg_image_resize_ok @ py_str input_path @ '' -> '' @ py_str output_path
               @ '' ('' @ py_str width @ ''x'' @ py_str height @ '')'')
              (msg_image_resize_failed @ py_str input_path))
      else if name = ''compress_video'' then
        (let input_path = dict_get arguments ''input_path'';
             output_path = dict_get arguments ''output_path'';
             crf = dict_get_default arguments ''crf'' (VInt 23);
             preset = dict_get_default arguments ''preset'' (VStr ''medium'')
         in single_file_branch w input_path (compress_video input_path output_path crf preset)
              (msg_video_compress_ok @ py_str input_path @ '' -> '' @ py_str output_path)
              (msg_video_compress_failed @ py_str input_path))
      else if name = ''batch_compress_videos'' then
        (let input_dir = dict_get arguments ''input_dir'';
             output_dir = dict_get arguments ''output_dir'';
             crf = dict_get_default arguments ''crf'' (VInt 23);
             preset = dict_get_default arguments ''preset'' (VStr ''medium'')
         in batch_branch w input_dir output_dir
              (as_process_func (\<lambda>i out. compress_video i out crf preset))
              msg_batch_videos_done)
      else if name = ''convert_video_format'' then
        (let input_path = dict_get arguments ''input_path'';
             output_path = dict_get arguments ''output_path''
         in single_file_branch w input_path (convert_video_format input_path output_path)
              (msg_video_convert_ok @ py_str input_path @ '' -> '' @ py_str output_path)
              (msg_video_convert_failed @ py_str input_path))
      else if name = ''resize_video'' then
        (let input_path = dict_get arguments ''input_path'';
             output_path = dict_get arguments ''output_path'';
             width = dict_get arguments ''width'';
             height = dict_get arguments ''height''
         in single_file_branch w input_path (resize_video input_path output_path width height)
              (msg_video_resize_ok @ py_str input_path @ '' -> '' @ py_str output_path
               @ '' ('' @ py_str width @ ''x'' @ py_str height @ '')'')
              (msg_video_resize_failed @ py_str input_path))
      else if name = ''get_media_info'' then
        (let file_path = dict_get arguments ''file_path''
         in case os_path_exists w file_path of
              Inl e \<Rightarrow> (Inl e, w)
            | Inr False \<Rightarrow>
                (Inr [TextContent ''text'' (msg_file_missing @ py_str file_path)], w)
            | Inr True \<Rightarrow>
                (case get_media_info file_path w of
                   (Inr info, w') \<Rightarrow> (Inr [TextContent ''text'' (json_dumps info)], w')
                 | (Inl e, w') \<Rightarrow>
                     (Inr [TextContent ''text'' (msg_media_info_failed @ str_exn e)], w')))
      else if name = ''check_ffmpeg_status'' then
        (case check_ffmpeg_available w of
           (available, w') \<Rightarrow>
             (Inr [TextContent ''text''
                    (if available then msg_ffmpeg_available else msg_ffmpeg_unavailable)], w'))
      else (Inr [TextContent ''text'' (msg_unknown_tool @ name)], w))"

text \<open>
  \<^verbatim>\<open>handle_call_tool\<close>: a missing argument dictionary is the empty one, and every
  exception of the body becomes a reply. The result is typed as a Python call is, with
  \<open>Inl\<close> for an exception that leaves the function.
\<close>

definition handle_call_tool ::
  "world \<Rightarrow> string \<Rightarrow> arguments option \<Rightarrow> (exn + content list) \<times> world"
where
  "handle_call_tool w name arguments =
     (case call_tool_body w name (case arguments of None \<Rightarrow> Map.empty | Some a \<Rightarrow> a) of
        (Inl e, w') \<Rightarrow> (Inr [TextContent ''text'' (msg_tool_error @ str_exn e)], w')
      | (Inr reply, w') \<Rightarrow> (Inr reply, w'))"


section \<open>Auxiliary notions for the statements\<close>

text \<open>
  What the \<^verbatim>\<open>try\<close> body of the batch loop yields for each file, in the order of the
  loop, each call starting in the world the previous one left.
\<close>

fun outcomes :: "process_func \<Rightarrow> pyval \<Rightarrow> string list \<Rightarrow> world \<Rightarrow> (string \<times> (exn + bool)) list" where
  "outcomes process_func output_dir [] w = []"
| "outcomes process_func output_dir (file_path # rest) w =
     (case try_process process_func output_dir file_path w of
        (outcome, w') \<Rightarrow> (file_path, outcome) # outcomes process_func output_dir rest w')"

text \<open>The entry the loop appends to \<^verbatim>\<open>"failed"\<close> for an outcome that is not true.\<close>

fun failed_entry :: "string \<times> (exn + bool) \<Rightarrow> string" where
  "failed_entry (file_path, Inl e) = path_name file_path @ '': '' @ str_exn e"
| "failed_entry (file_path, Inr b) = path_name file_path"

text \<open>Each tool name of the catalogue with each of its required properties.\<close>

definition required_pairs :: "(string \<times> string) list" where
  "required_pairs = concat (map (\<lambda>t. map (Pair (tool_name t)) (tool_required t)) handle_list_tools)"

text \<open>
  A world for the concrete examples: three directories, an encoder that fails on
  \<^verbatim>\<open>/mixed/broken.jpg\<close> only, and nothing done yet.
\<close>

definition example_world :: world where
  "example_world =
     \<lparr>path_exists = (\<lambda>p. p \<in> set [''/photos'', ''/media'', ''/mixed'', ''/media/photo.jpg'']),
      fd_exists = (\<lambda>i. False),
      path_is_dir = (\<lambda>p. p \<in> set [''/photos'', ''/media'', ''/mixed'']),
      dir_entries =
        (\<lambda>d. if d = ''/photos'' then [''A.JPG'', ''a.jpg'', ''a.Jpg'', ''a.jpgx'']
             else if d = ''/media'' then [''photo.jpg'', ''clip.mp4'', ''doc.txt'']
             else if d = ''/mixed'' then [''good.jpg'', ''broken.jpg'', ''last.png'']
             else []),
      makedirs_result = (\<lambda>es d. None),
      process_result =
        (\<lambda>es cmd. Completed \<lparr>returncode = (if ''/mixed/broken.jpg'' \<in> set cmd then 1 else 0),
                                stdout = [], stderr = []\<rparr>),
      json_pretty = (\<lambda>s. Inr s),
      events = []\<rparr>"

section \<open>Lemmas about the batch loop, the paths and the branches of the dispatcher\<close>

lemma batch_loop_step:
  "try_process f out fp w = (outcome, w1) \<Longrightarrow>
   batch_loop f out (fp # rest) r w =
     batch_loop f out rest
       (if outcome = Inr True then r\<lparr>success := success r @ [path_name fp]\<rparr>
        else r\<lparr>failed := failed r @ [failed_entry (fp, outcome)]\<rparr>) w1"
  by (cases outcome) (auto split: bool.splits)

lemma batch_loop_total: "total_count (fst (batch_loop f out fs r w)) = total_count r"
proof (induction fs arbitrary: r w)
  case Nil
  show ?case by simp
next
  case (Cons fp fs)
  obtain outcome w1 where tp: "try_process f out fp w = (outcome, w1)"
    by (cases "try_process f out fp w")
  show ?case
    unfolding batch_loop_step [OF tp] Cons.IH by simp
qed

lemma batch_loop_lengths:
  "length (success (fst (batch_loop f out fs r w))) + length (failed (fst (batch_loop f out fs r w)))
   = length (success r) + length (failed r) + length fs"
proof (induction fs arbitrary: r w)
  case Nil
  show ?case by simp
next
  case (Cons fp fs)
  obtain outcome w1 where tp: "try_process f out fp w = (outcome, w1)"
    by (cases "try_process f out fp w")
  show ?case
    unfolding batch_loop_step [OF tp] Cons.IH by simp
qed

lemma batch_loop_append:
  "batch_loop f out (xs @ ys) r w =
     (case batch_loop f out xs r w of (r1, w1) \<Rightarrow> batch_loop f out ys r1 w1)"
proof (induction xs arbitrary: r w)
  case Nil
  show ?case by simp
next
  case (Cons fp fs)
  obtain outcome w1 where tp: "try_process f out fp w = (outcome, w1)"
    by (cases "try_process f out fp w")
  show ?case
    unfolding append_Cons batch_loop_step [OF tp] Cons.IH by simp
qed

lemma batch_loop_world:
  "snd (batch_loop f out fs r w) = foldl (\<lambda>w fp. snd (try_process f out fp w)) w fs"
proof (induction fs arbitrary: r w)
  case Nil
  show ?case by simp
next
  case (Cons fp fs)
  obtain outcome w1 where tp: "try_process f out fp w = (outcome, w1)"
    by (cases "try_process f out fp w")
  show ?case
    unfolding batch_loop_step [OF tp] Cons.IH by (simp add: tp)
qed

lemma batch_loop_failed:
  "failed (fst (batch_loop f out fs r w)) =
     failed r @ map failed_entry (filter (\<lambda>(fp, outcome). outcome \<noteq> Inr True) (outcomes f out fs w))"
proof (induction fs arbitrary: r w)
  case Nil
  show ?case by simp
next
  case (Cons fp fs)
  obtain outcome w1 where tp: "try_process f out fp w = (outcome, w1)"
    by (cases "try_process f out fp w")
  show ?case
    unfolding batch_loop_step [OF tp] Cons.IH by (simp add: tp)
qed

lemma batch_loop_success:
  "success (fst (batch_loop f out fs r w)) =
     success r @ map (\<lambda>(fp, outcome). path_name fp) (filter (\<lambda>(fp, outcome). outcome = Inr True) (outcomes f out fs w))"
proof (induction fs arbitrary: r w)
  case Nil
  show ?case by simp
next
  case (Cons fp fs)
  obtain outcome w1 where tp: "try_process f out fp w = (outcome, w1)"
    by (cases "try_process f out fp w")
  show ?case
    unfolding batch_loop_step [OF tp] Cons.IH by (simp add: tp)
qed

lemma outcomes_files: "map fst (outcomes f out fs w) = fs"
  by (induction fs arbitrary: w) (auto split: prod.splits)

lemma spawned_append: "spawned (xs @ ys) = spawned xs @ spawned ys"
  by (induction xs rule: spawned.induct) auto

lemma posix_dirname_bare: "CHR ''/'' \<notin> set p \<Longrightarrow> posix_dirname p = []"
proof -
  assume a: "CHR ''/'' \<notin> set p"
  have "dropWhile (\<lambda>c. c \<noteq> CHR ''/'') (rev p) = []"
    using a by (auto simp: dropWhile_eq_Nil_conv)
  then show ?thesis by (simp add: posix_dirname_def)
qed

lemma makedirs_then_run_bare:
  "CHR ''/'' \<notin> set p \<Longrightarrow>
   makedirs_then_run (VStr p) cmd w = (False, w\<lparr>events := events w @ [Mkdirs []]\<rparr>)"
  by (simp add: makedirs_then_run_def os_path_dirname_def os_fspath_def posix_dirname_bare
      os_makedirs_def)

lemma makedirs_then_run_not_str:
  "\<not> is_str v \<Longrightarrow> makedirs_then_run v cmd w = (False, w)"
  by (cases v) (simp_all add: makedirs_then_run_def os_path_dirname_def os_fspath_def)

lemma single_file_branch_shape:
  "case fst (single_file_branch w v operation ok bad) of
     Inl e \<Rightarrow> True
   | Inr reply \<Rightarrow> \<exists>t. reply = [TextContent ''text'' t]"
  by (simp add: single_file_branch_def split: sum.splits bool.splits prod.splits)

lemma batch_branch_shape:
  "case fst (batch_branch w i out f done_text) of
     Inl e \<Rightarrow> True
   | Inr reply \<Rightarrow> \<exists>t. reply = [TextContent ''text'' t]"
  by (simp add: batch_branch_def split: sum.splits bool.splits prod.splits)

lemma call_tool_body_shape:
  "case fst (call_tool_body w name arguments) of
     Inl e \<Rightarrow> True
   | Inr reply \<Rightarrow> \<exists>t. reply = [TextContent ''text'' t]"
  unfolding call_tool_body_def Let_def
  by (simp add: single_file_branch_shape batch_branch_shape
      split: sum.splits bool.splits prod.splits)


lemma not_found_single:
  "\<not> path_exists w path \<Longrightarrow>
   single_file_branch w (VStr path) operation ok bad =
     (Inr [TextContent ''text'' (msg_input_file_missing @ path)], w)"
  by (simp add: single_file_branch_def os_path_exists_def)

lemma not_found_batch:
  "\<not> path_exists w path \<Longrightarrow>
   batch_branch w (VStr path) out f done_text =
     (Inr [TextContent ''text'' (msg_input_dir_missing @ path)], w)"
  by (simp add: batch_branch_def os_path_exists_def)

lemma required_pairs_eq:
  "required_pairs =
     [(''compress_image'', ''input_path''), (''compress_image'', ''output_path''),
      (''batch_compress_images'', ''input_dir''), (''batch_compress_images'', ''output_dir''),
      (''convert_image_format'', ''input_path''), (''convert_image_format'', ''output_path''),
      (''resize_image'', ''input_path''), (''resize_image'', ''output_path''),
      (''resize_image'', ''width''), (''resize_image'', ''height''),
      (''compress_video'', ''input_path''), (''compress_video'', ''output_path''),
      (''batch_compress_videos'', ''input_dir''), (''batch_compress_videos'', ''output_dir''),
      (''convert_video_format'', ''input_path''), (''convert_video_format'', ''output_path''),
      (''resize_video'', ''input_path''), (''resize_video'', ''output_path''),
      (''resize_video'', ''width''), (''resize_video'', ''height''),
      (''get_media_info'', ''file_path'')]"
  by (simp add: required_pairs_def handle_list_tools_def)

lemma required_pairs_mem:
  "t \<in> set handle_list_tools \<Longrightarrow> p \<in> set (tool_required t) \<Longrightarrow>
   (tool_name t, p) \<in> set required_pairs"
  unfolding required_pairs_def by auto

lemma input_param_cases:
  assumes "t \<in> set handle_list_tools" "p \<in> set (tool_required t)"
    "p \<in> {''input_path'', ''input_dir'', ''file_path''}"
  shows "(tool_name t, p) \<in> set
     [(''compress_image'', ''input_path''), (''batch_compress_images'', ''input_dir''),
      (''convert_image_format'', ''input_path''), (''resize_image'', ''input_path''),
      (''compress_video'', ''input_path''), (''batch_compress_videos'', ''input_dir''),
      (''convert_video_format'', ''input_path''), (''resize_video'', ''input_path''),
      (''get_media_info'', ''file_path'')]"
proof -
  have "(tool_name t, p) \<in> set (filter (\<lambda>(n, q). q \<in> {''input_path'', ''input_dir'', ''file_path''}) required_pairs)"
    using required_pairs_mem [OF assms(1,2)] assms(3) by simp
  then show ?thesis by (simp add: required_pairs_eq)
qed

lemma not_found_compress_image:
  "arguments ''input_path'' = Some (VStr path) \<Longrightarrow> \<not> path_exists w path \<Longrightarrow>
   call_tool_body w ''compress_image'' arguments =
     (Inr [TextContent ''text'' (msg_input_file_missing @ path)], w)"
  by (simp add: call_tool_body_def dict_get_def not_found_single)

lemma not_found_convert_image_format:
  "arguments ''input_path'' = Some (VStr path) \<Longrightarrow> \<not> path_exists w path \<Longrightarrow>
   call_tool_body w ''convert_image_format'' arguments =
     (Inr [TextContent ''text'' (msg_input_file_missing @ path)], w)"
  by (simp add: call_tool_body_def dict_get_def not_found_single)

lemma not_found_resize_image:
  "arguments ''input_path'' = Some (VStr path) \<Longrightarrow> \<not> path_exists w path \<Longrightarrow>
   call_tool_body w ''resize_image'' arguments =
     (Inr [TextContent ''text'' (msg_input_file_missing @ path)], w)"
  by (simp add: call_tool_body_def dict_get_def not_found_single)

lemma not_found_compress_video:
  "arguments ''input_path'' = Some (VStr path) \<Longrightarrow> \<not> path_exists w path \<Longrightarrow>
   call_tool_body w ''compress_video'' arguments =
     (Inr [TextContent ''text'' (msg_input_file_missing @ path)], w)"
  by (simp add: call_tool_body_def dict_get_def not_found_single)

lemma not_found_convert_video_format:
  "arguments ''input_path'' = Some (VStr path) \<Longrightarrow> \<not> path_exists w path \<Longrightarrow>
   call_tool_body w ''convert_video_format'' arguments =
     (Inr [TextContent ''text'' (msg_input_file_missing @ path)], w)"
  by (simp add: call_tool_body_def dict_get_def not_found_single)

lemma not_found_resize_video:
  "arguments ''input_path'' = Some (VStr path) \<Longrightarrow> \<not> path_exists w path \<Longrightarrow>
   call_tool_body w ''resize_video'' arguments =
     (Inr [TextContent ''text'' (msg_input_file_missing @ path)], w)"
  by (simp add: call_tool_body_def dict_get_def not_found_single)

lemma not_found_batch_compress_images:
  "arguments ''input_dir'' = Some (VStr path) \<Longrightarrow> \<not> path_exists w path \<Longrightarrow>
   call_tool_body w ''batch_compress_images'' arguments =
     (Inr [TextContent ''text'' (msg_input_dir_missing @ path)], w)"
  by (simp add: call_tool_body_def dict_get_def not_found_batch)

lemma not_found_batch_compress_videos:
  "arguments ''input_dir'' = Some (VStr path) \<Longrightarrow> \<not> path_exists w path \<Longrightarrow>
   call_tool_body w ''batch_compress_videos'' arguments =
     (Inr [TextContent ''text'' (msg_input_dir_missing @ path)], w)"
  by (simp add: call_tool_body_def dict_get_def not_found_batch)

lemma not_found_get_media_info:
  "arguments ''file_path'' = Some (VStr path) \<Longrightarrow> \<not> path_exists w path \<Longrightarrow>
   call_tool_body w ''get_media_info'' arguments =
     (Inr [TextContent ''text'' (msg_file_missing @ path)], w)"
  by (simp add: call_tool_body_def dict_get_def os_path_exists_def)

lemmas not_found_tools =
  not_found_compress_image not_found_convert_image_format not_found_resize_image
  not_found_compress_video not_found_convert_video_format not_found_resize_video
  not_found_batch_compress_images not_found_batch_compress_videos not_found_get_media_info

lemma not_found_body:
  assumes "(n, p) \<in> set
     [(''compress_image'', ''input_path''), (''batch_compress_images'', ''input_dir''),
      (''convert_image_format'', ''input_path''), (''resize_image'', ''input_path''),
      (''compress_video'', ''input_path''), (''batch_compress_videos'', ''input_dir''),
      (''convert_video_format'', ''input_path''), (''resize_video'', ''input_path''),
      (''get_media_info'', ''file_path'')]"
    and "arguments p = Some (VStr path)" and "\<not> path_exists w path"
  shows "call_tool_body w n arguments =
     (Inr [TextContent ''text''
        ((if p = ''input_path'' then msg_input_file_missing
          else if p = ''input_dir'' then msg_input_dir_missing
          else msg_file_missing) @ path)], w)"
proof -
  from assms(1) have
    "n = ''compress_image'' \<and> p = ''input_path'' \<or>
     n = ''batch_compress_images'' \<and> p = ''input_dir'' \<or>
     n = ''convert_image_format'' \<and> p = ''input_path'' \<or>
     n = ''resize_image'' \<and> p = ''input_path'' \<or>
     n = ''compress_video'' \<and> p = ''input_path'' \<or>
     n = ''batch_compress_videos'' \<and> p = ''input_dir'' \<or>
     n = ''convert_video_format'' \<and> p = ''input_path'' \<or>
     n = ''resize_video'' \<and> p = ''input_path'' \<or>
     n = ''get_media_info'' \<and> p = ''file_path''"
    by simp
  then show ?thesis
    using assms(2,3)
    by (elim disjE conjE) (simp_all add: not_found_tools)
qed


lemma bare_no_spawn:
  assumes "CHR ''/'' \<notin> set p"
  shows "fst (makedirs_then_run (VStr p) cmd w) = False
         \<and> spawned (events (snd (makedirs_then_run (VStr p) cmd w))) = spawned (events w)"
  by (simp add: makedirs_then_run_bare [OF assms] spawned_append)


lemma exists_none: "os_path_exists w VNone = Inl (TypeError ''stat: path should be string, bytes, os.PathLike or integer, not NoneType'')"
  by (simp add: os_path_exists_def)

lemma single_file_branch_none:
  "single_file_branch w VNone operation ok bad = (Inl (TypeError ''stat: path should be string, bytes, os.PathLike or integer, not NoneType''), w)"
  by (simp add: single_file_branch_def exists_none)

lemma batch_branch_none:
  "batch_branch w VNone out f done_text = (Inl (TypeError ''stat: path should be string, bytes, os.PathLike or integer, not NoneType''), w)"
  by (simp add: batch_branch_def exists_none)

lemma single_file_branch_world:
  "snd (operation w) = w \<Longrightarrow> snd (single_file_branch w v operation ok bad) = w"
  by (auto simp: single_file_branch_def split: sum.splits bool.splits prod.splits)

lemma try_process_none: "snd (try_process f VNone fp w) = w"
  by (simp add: try_process_def os_path_join_def os_fspath_def)

lemma batch_loop_none: "snd (batch_loop f VNone fs r w) = w"
  unfolding batch_loop_world by (induction fs) (simp_all add: try_process_none)

lemma batch_branch_world_none: "snd (batch_branch w v VNone f done_text) = w"
  by (simp add: batch_branch_def batch_process_files_def batch_loop_none
      split: sum.splits bool.splits prod.splits)
    (metis batch_loop_none snd_conv)

lemma missing_input_compress_image:
  "arguments ''input_path'' = None \<Longrightarrow>
   call_tool_body w ''compress_image'' arguments = (Inl (TypeError ''stat: path should be string, bytes, os.PathLike or integer, not NoneType''), w)"
  by (simp add: call_tool_body_def dict_get_def single_file_branch_none)

lemma missing_output_compress_image:
  "arguments ''output_path'' = None \<Longrightarrow> snd (call_tool_body w ''compress_image'' arguments) = w"
  by (simp add: call_tool_body_def dict_get_def compress_image_def single_file_branch_world
      makedirs_then_run_not_str Let_def)

lemma missing_input_convert_image_format:
  "arguments ''input_path'' = None \<Longrightarrow>
   call_tool_body w ''convert_image_format'' arguments = (Inl (TypeError ''stat: path should be string, bytes, os.PathLike or integer, not NoneType''), w)"
  by (simp add: call_tool_body_def dict_get_def single_file_branch_none)

lemma missing_output_convert_image_format:
  "arguments ''output_path'' = None \<Longrightarrow> snd (call_tool_body w ''convert_image_format'' arguments) = w"
  by (simp add: call_tool_body_def dict_get_def convert_image_format_def single_file_branch_world
      makedirs_then_run_not_str Let_def)

lemma missing_input_resize_image:
  "arguments ''input_path'' = None \<Longrightarrow>
   call_tool_body w ''resize_image'' arguments = (Inl (TypeError ''stat: path should be string, bytes, os.PathLike or integer, not NoneType''), w)"
  by (simp add: call_tool_body_def dict_get_def single_file_branch_none)

lemma missing_output_resize_image:
  "arguments ''output_path'' = None \<Longrightarrow> snd (call_tool_body w ''resize_image'' arguments) = w"
  by (simp add: call_tool_body_def dict_get_def resize_image_def single_file_branch_world
      makedirs_then_run_not_str Let_def)

lemma missing_input_compress_video:
  "arguments ''input_path'' = None \<Longrightarrow>
   call_tool_body w ''compress_video'' arguments = (Inl (TypeError ''stat: path should be string, bytes, os.PathLike or integer, not NoneType''), w)"
  by (simp add: call_tool_body_def dict_get_def single_file_branch_none)

lemma missing_output_compress_video:
  "arguments ''output_path'' = None \<Longrightarrow> snd (call_tool_body w ''compress_video'' arguments) = w"
  by (simp add: call_tool_body_def dict_get_def compress_video_def single_file_branch_world
      makedirs_then_run_not_str Let_def)

lemma missing_input_convert_video_format:
  "arguments ''input_path'' = None \<Longrightarrow>
   call_tool_body w ''convert_video_format'' arguments = (Inl (TypeError ''stat: path should be string, bytes, os.PathLike or integer, not NoneType''), w)"
  by (simp add: call_tool_body_def dict_get_def single_file_branch_none)

lemma missing_output_convert_video_format:
  "arguments ''output_path'' = None \<Longrightarrow> snd (call_tool_body w ''convert_video_format'' arguments) = w"
  by (simp add: call_tool_body_def dict_get_def convert_video_format_def single_file_branch_world
      makedirs_then_run_not_str Let_def)

lemma missing_input_resize_video:
  "arguments ''input_path'' = None \<Longrightarrow>
   call_tool_body w ''resize_video'' arguments = (Inl (TypeError ''stat: path should be string, bytes, os.PathLike or integer, not NoneType''), w)"
  by (simp add: call_tool_body_def dict_get_def single_file_branch_none)

lemma missing_output_resize_video:
  "arguments ''output_path'' = None \<Longrightarrow> snd (call_tool_body w ''resize_video'' arguments) = w"
  by (simp add: call_tool_body_def dict_get_def resize_video_def single_file_branch_world
      makedirs_then_run_not_str Let_def)

lemma missing_input_batch_compress_images:
  "arguments ''input_dir'' = None \<Longrightarrow>
   call_tool_body w ''batch_compress_images'' arguments = (Inl (TypeError ''stat: path should be string, bytes, os.PathLike or integer, not NoneType''), w)"
  by (simp add: call_tool_body_def dict_get_def batch_branch_none)

lemma missing_output_batch_compress_images:
  "arguments ''output_dir'' = None \<Longrightarrow> snd (call_tool_body w ''batch_compress_images'' arguments) = w"
  by (simp add: call_tool_body_def dict_get_def batch_branch_world_none)

lemma missing_input_batch_compress_videos:
  "arguments ''input_dir'' = None \<Longrightarrow>
   call_tool_body w ''batch_compress_videos'' arguments = (Inl (TypeError ''stat: path should be string, bytes, os.PathLike or integer, not NoneType''), w)"
  by (simp add: call_tool_body_def dict_get_def batch_branch_none)

lemma missing_output_batch_compress_videos:
  "arguments ''output_dir'' = None \<Longrightarrow> snd (call_tool_body w ''batch_compress_videos'' arguments) = w"
  by (simp add: call_tool_body_def dict_get_def batch_branch_world_none)

lemma missing_input_get_media_info:
  "arguments ''file_path'' = None \<Longrightarrow>
   call_tool_body w ''get_media_info'' arguments = (Inl (TypeError ''stat: path should be string, bytes, os.PathLike or integer, not NoneType''), w)"
  by (simp add: call_tool_body_def dict_get_def exists_none)

lemmas missing_input_tools =
  missing_input_compress_image missing_input_convert_image_format missing_input_resize_image
  missing_input_compress_video missing_input_convert_video_format missing_input_resize_video
  missing_input_batch_compress_images missing_input_batch_compress_videos missing_input_get_media_info

lemmas missing_output_tools =
  missing_output_compress_image missing_output_convert_image_format missing_output_resize_image
  missing_output_compress_video missing_output_convert_video_format missing_output_resize_video
  missing_output_batch_compress_images missing_output_batch_compress_videos

lemma missing_input_body:
  assumes "(n, p) \<in> set
     [(''compress_image'', ''input_path''), (''batch_compress_images'', ''input_dir''),
      (''convert_image_format'', ''input_path''), (''resize_image'', ''input_path''),
      (''compress_video'', ''input_path''), (''batch_compress_videos'', ''input_dir''),
      (''convert_video_format'', ''input_path''), (''resize_video'', ''input_path''),
      (''get_media_info'', ''file_path'')]"
    and "arguments p = None"
  shows "call_tool_body w n arguments = (Inl (TypeError ''stat: path should be string, bytes, os.PathLike or integer, not NoneType''), w)"
proof -
  from assms(1) have
    "n = ''compress_image'' \<and> p = ''input_path'' \<or>
     n = ''batch_compress_images'' \<and> p = ''input_dir'' \<or>
     n = ''convert_image_format'' \<and> p = ''input_path'' \<or>
     n = ''resize_image'' \<and> p = ''input_path'' \<or>
     n = ''compress_video'' \<and> p = ''input_path'' \<or>
     n = ''batch_compress_videos'' \<and> p = ''input_dir'' \<or>
     n = ''convert_video_format'' \<and> p = ''input_path'' \<or>
     n = ''resize_video'' \<and> p = ''input_path'' \<or>
     n = ''get_media_info'' \<and> p = ''file_path''"
    by simp
  then show ?thesis
    using assms(2)
    by (elim disjE conjE) (simp_all add: missing_input_tools)
qed

lemma missing_output_body:
  assumes "(n, p) \<in> set
     [(''compress_image'', ''output_path''),
      (''batch_compress_images'', ''output_dir''),
      (''convert_image_format'', ''output_path''), (''resize_image'', ''output_path''),
      (''compress_video'', ''output_path''),
      (''batch_compress_videos'', ''output_dir''),
      (''convert_video_format'', ''output_path''), (''resize_video'', ''output_path'')]"
    and "arguments p = None"
  shows "snd (call_tool_body w n arguments) = w"
proof -
  from assms(1) have
    "n = ''compress_image'' \<and> p = ''output_path'' \<or>
     n = ''batch_compress_images'' \<and> p = ''output_dir'' \<or>
     n = ''convert_image_format'' \<and> p = ''output_path'' \<or>
     n = ''resize_image'' \<and> p = ''output_path'' \<or>
     n = ''compress_video'' \<and> p = ''output_path'' \<or>
     n = ''batch_compress_videos'' \<and> p = ''output_dir'' \<or>
     n = ''convert_video_format'' \<and> p = ''output_path'' \<or>
     n = ''resize_video'' \<and> p = ''output_path''"
    by simp
  then show ?thesis
    using assms(2)
    by (elim disjE conjE) (simp_all add: missing_output_tools)
qed

lemma output_param_cases:
  assumes "t \<in> set handle_list_tools" "p \<in> set (tool_required t)"
    "p \<in> {''output_path'', ''output_dir''}"
  shows "(tool_name t, p) \<in> set
     [(''compress_image'', ''output_path''),
      (''batch_compress_images'', ''output_dir''),
      (''convert_image_format'', ''output_path''), (''resize_image'', ''output_path''),
      (''compress_video'', ''output_path''),
      (''batch_compress_videos'', ''output_dir''),
      (''convert_video_format'', ''output_path''), (''resize_video'', ''output_path'')]"
proof -
  have "(tool_name t, p) \<in> set (filter (\<lambda>(n, q). q \<in> {''output_path'', ''output_dir''}) required_pairs)"
    using required_pairs_mem [OF assms(1,2)] assms(3) by simp
  then show ?thesis by (simp add: required_pairs_eq)
qed

lemma handle_call_tool_world:
  "snd (handle_call_tool w name arguments) =
   snd (call_tool_body w name (case arguments of None \<Rightarrow> Map.empty | Some a \<Rightarrow> a))"
  by (simp add: handle_call_tool_def split: prod.splits sum.splits)


lemma reply_shape:
  "\<exists>t. fst (handle_call_tool w name arguments) = Inr [TextContent ''text'' t]"
proof -
  let ?a = "case arguments of None \<Rightarrow> Map.empty | Some a \<Rightarrow> a"
  obtain x w' where b: "call_tool_body w name ?a = (x, w')"
    by (cases "call_tool_body w name ?a")
  show ?thesis
  proof (cases x)
    case (Inl e)
    with b show ?thesis by (simp add: handle_call_tool_def)
  next
    case (Inr reply)
    with b call_tool_body_shape [of w name ?a] obtain t where "reply = [TextContent ''text'' t]"
      by auto
    with b Inr show ?thesis by (simp add: handle_call_tool_def)
  qed
qed

text \<open>Evaluating the enumeration and the batch in the example world.\<close>

lemmas files_defs =
  get_files_by_extension_def os_fspath_def Path_def str_path_def glob_def child_def
  fnmatch_star_def ends_with_def upper_def upper_char_def all_extensions_def
  image_extensions_def video_extensions_def

lemmas run_defs =
  try_process_def path_name_def Path_def os_path_join_def os_fspath_def as_process_func_def
  compress_image_def makedirs_then_run_def os_path_dirname_def posix_dirname_def
  os_makedirs_def subprocess_run_def str_int_def str_nat.simps Let_def

lemma media_files:
  "get_files_by_extension example_world (VStr ''/media'') all_extensions
   = Inr [''/media/photo.jpg'', ''/media/clip.mp4'']"
  by (simp add: files_defs example_world_def)

lemma mixed_files:
  "get_files_by_extension example_world (VStr ''/mixed'') all_extensions
   = Inr [''/mixed/good.jpg'', ''/mixed/broken.jpg'', ''/mixed/last.png'']"
  by (simp add: files_defs example_world_def)

lemma nowhere_files:
  "get_files_by_extension example_world (VStr ''/nowhere'') all_extensions = Inr []"
  by (simp add: files_defs example_world_def)

lemma media_batch:
  "batch_process_files (VStr ''/media'') (VStr ''/out'')
     (as_process_func (\<lambda>i out. compress_image i out (VInt 85))) example_world
   = (Inr \<lparr>success = [''photo.jpg'', ''clip.mp4''], failed = [], total_count = 2\<rparr>,
      example_world
        \<lparr>events := [Mkdirs ''/out'',
                     Spawn [''ffmpeg'', ''-y'', ''-i'', ''/media/photo.jpg'', ''-q:v'', ''85'',
                            ''/out/photo.jpg''],
                     Mkdirs ''/out'',
                     Spawn [''ffmpeg'', ''-y'', ''-i'', ''/media/clip.mp4'', ''-q:v'', ''85'',
                            ''/out/clip.mp4'']]\<rparr>)"
  by (simp add: batch_process_files_def media_files) (simp add: run_defs example_world_def)

lemma get_files_str:
  "\<exists>files. get_files_by_extension w (VStr d) extensions = Inr files"
  by (simp add: get_files_by_extension_def os_fspath_def Let_def)

lemma batch_process_files_result:
  assumes "get_files_by_extension w input_dir all_extensions = Inr files"
  shows "batch_process_files input_dir output_dir f w =
     (Inr (fst (batch_loop f output_dir files
                 \<lparr>success = [], failed = [], total_count = length files\<rparr> w)),
      snd (batch_loop f output_dir files
                 \<lparr>success = [], failed = [], total_count = length files\<rparr> w))"
  by (simp add: batch_process_files_def assms split: prod.splits)

section \<open>The claims\<close>

text \<open>
  C1 (as amended). A request for a registered tool that omits a required path property
  (\<^verbatim>\<open>input_path\<close>, \<^verbatim>\<open>input_dir\<close>, \<^verbatim>\<open>file_path\<close>, \<^verbatim>\<open>output_path\<close> or \<^verbatim>\<open>output_dir\<close>)
  gets exactly one text reply and leaves the world as it was, so no external process
  is run. When the omitted property is the input path, the reply is the general
  execution-error text wrapping the \<^verbatim>\<open>TypeError\<close> of the existence check on \<^verbatim>\<open>None\<close>; it
  does not name the property. Nothing is promised for an omitted \<^verbatim>\<open>width\<close> or
  \<^verbatim>\<open>height\<close>.
\<close>

theorem missing_path_argument:
  assumes "t \<in> set handle_list_tools" and "p \<in> set (tool_required t)"
    and "p \<in> {''input_path'', ''input_dir'', ''file_path'', ''output_path'', ''output_dir''}"
    and "arguments p = None"
  shows "(\<exists>txt. handle_call_tool w (tool_name t) (Some arguments) = (Inr [TextContent ''text'' txt], w))
    \<and> (p \<in> {''input_path'', ''input_dir'', ''file_path''} \<longrightarrow>
         handle_call_tool w (tool_name t) (Some arguments) =
           (Inr [TextContent ''text''
              (msg_tool_error
               @ ''stat: path should be string, bytes, os.PathLike or integer, not NoneType'')], w))"
proof -
  have inp: "handle_call_tool w (tool_name t) (Some arguments) =
           (Inr [TextContent ''text''
              (msg_tool_error
               @ ''stat: path should be string, bytes, os.PathLike or integer, not NoneType'')], w)"
    if "p \<in> {''input_path'', ''input_dir'', ''file_path''}"
    using missing_input_body [of "tool_name t" p arguments w]
      input_param_cases [OF assms(1,2) that] assms(4)
    by (simp add: handle_call_tool_def)
  have outp: "snd (handle_call_tool w (tool_name t) (Some arguments)) = w"
    if "p \<in> {''output_path'', ''output_dir''}"
    using missing_output_body [of "tool_name t" p arguments w]
      output_param_cases [OF assms(1,2) that] assms(4)
    by (simp add: handle_call_tool_world)
  have ex: "\<exists>txt. handle_call_tool w (tool_name t) (Some arguments) = (Inr [TextContent ''text'' txt], w)"
  proof (cases "p \<in> {''input_path'', ''input_dir'', ''file_path''}")
    case True
    show ?thesis
      by (rule exI) (rule inp [OF True])
  next
    case False
    with assms(3) have o: "p \<in> {''output_path'', ''output_dir''}"
      by simp
    obtain s where r: "fst (handle_call_tool w (tool_name t) (Some arguments)) = Inr [TextContent ''text'' s]"
      using reply_shape [of w "tool_name t" "Some arguments"] ..
    have "handle_call_tool w (tool_name t) (Some arguments) = (Inr [TextContent ''text'' s], w)"
      using r outp [OF o] by (simp add: prod_eq_iff)
    then show ?thesis ..
  qed
  show ?thesis
  proof (intro conjI impI)
    show "\<exists>txt. handle_call_tool w (tool_name t) (Some arguments) = (Inr [TextContent ''text'' txt], w)"
      by (rule ex)
  next
    assume "p \<in> {''input_path'', ''input_dir'', ''file_path''}"
    then show "handle_call_tool w (tool_name t) (Some arguments) =
           (Inr [TextContent ''text''
              (msg_tool_error
               @ ''stat: path should be string, bytes, os.PathLike or integer, not NoneType'')], w)"
      by (rule inp)
  qed
qed

text \<open>
  C1, witness of the amended statement: \<^verbatim>\<open>compress_image\<close> called with an output path
  only.
\<close>

theorem missing_path_argument_witness:
  "handle_call_tool example_world ''compress_image'' (Some [''output_path'' \<mapsto> VStr ''/out/a.jpg''])
   = (Inr [TextContent ''text''
        (msg_tool_error
         @ ''stat: path should be string, bytes, os.PathLike or integer, not NoneType'')],
      example_world)"
proof -
  let ?t = "\<lparr>tool_name = ''compress_image'',
             tool_properties = [(''input_path'', ''string'', None), (''output_path'', ''string'', None),
                                (''quality'', ''integer'', Some (VInt 85))],
             tool_required = [''input_path'', ''output_path'']\<rparr>"
  have t: "?t \<in> set handle_list_tools"
    by (simp add: handle_list_tools_def)
  have r: "''input_path'' \<in> set (tool_required ?t)"
    by simp
  have m: "''input_path'' \<in> {''input_path'', ''input_dir'', ''file_path'', ''output_path'', ''output_dir''}"
    by simp
  have a: "[''output_path'' \<mapsto> VStr ''/out/a.jpg''] ''input_path'' = None"
    by simp
  show ?thesis
    using missing_path_argument [of ?t "''input_path''" "[''output_path'' \<mapsto> VStr ''/out/a.jpg'']"
        example_world, OF t r m a]
    by simp
qed

text \<open>
  C1, counterexample to the claim as stated: \<^verbatim>\<open>width\<close> is a required property of
  \<^verbatim>\<open>resize_image\<close>; a request without it is not refused. The encoder is run with the
  filter \<^verbatim>\<open>scale=None:50\<close> and the reply reports success.
\<close>

theorem missing_width_counterexample:
  "(''resize_image'', ''width'') \<in> set required_pairs
   \<and> [''input_path'' \<mapsto> VStr ''/media/photo.jpg'', ''output_path'' \<mapsto> VStr ''/out/photo.jpg'',
       ''height'' \<mapsto> VInt 50] ''width'' = None
   \<and> handle_call_tool example_world ''resize_image''
        (Some [''input_path'' \<mapsto> VStr ''/media/photo.jpg'', ''output_path'' \<mapsto> VStr ''/out/photo.jpg'',
               ''height'' \<mapsto> VInt 50])
      = (Inr [TextContent ''text''
                (msg_image_resize_ok @ ''/media/photo.jpg -> /out/photo.jpg (Nonex50)'')],
         example_world
           \<lparr>events := [Mkdirs ''/out'',
                        Spawn [''ffmpeg'', ''-y'', ''-i'', ''/media/photo.jpg'',
                               ''-vf'', ''scale=None:50'', ''/out/photo.jpg'']]\<rparr>)"
  by (simp add: required_pairs_eq handle_call_tool_def call_tool_body_def dict_get_def
      single_file_branch_def os_path_exists_def resize_image_def makedirs_then_run_def
      os_path_dirname_def os_fspath_def posix_dirname_def os_makedirs_def subprocess_run_def
      example_world_def str_int_def str_nat.simps)

text \<open>
  C2, the code at the failing input. The directory \<^verbatim>\<open>/photos\<close> of the example world
  holds \<^verbatim>\<open>A.JPG\<close>, \<^verbatim>\<open>a.jpg\<close>, \<^verbatim>\<open>a.Jpg\<close> and \<^verbatim>\<open>a.jpgx\<close>. The enumeration globs
  each extension as written and in upper case, so it returns \<^verbatim>\<open>a.jpg\<close> and \<^verbatim>\<open>A.JPG\<close>
  and leaves out the mixed-case \<^verbatim>\<open>a.Jpg\<close> (and, as claimed, \<^verbatim>\<open>a.jpgx\<close>).
\<close>

theorem mixed_case_extension_skipped:
  "dir_entries example_world ''/photos'' = [''A.JPG'', ''a.jpg'', ''a.Jpg'', ''a.jpgx'']
   \<and> get_files_by_extension example_world (VStr ''/photos'') all_extensions
       = Inr [''/photos/a.jpg'', ''/photos/A.JPG'']"
  by (simp add: files_defs example_world_def)

text \<open>
  C3, the code at the failing input. The directory \<^verbatim>\<open>/media\<close> of the example world
  holds \<^verbatim>\<open>photo.jpg\<close>, \<^verbatim>\<open>clip.mp4\<close> and \<^verbatim>\<open>doc.txt\<close>. The image batch
  \<^verbatim>\<open>batch_compress_images\<close> enumerates with the image and the video extensions
  together: its total is 2 and the image encoder command is run on \<^verbatim>\<open>clip.mp4\<close> too.
\<close>

theorem image_batch_counts_video:
  "dir_entries example_world ''/media'' = [''photo.jpg'', ''clip.mp4'', ''doc.txt'']
   \<and> fst (handle_call_tool example_world ''batch_compress_images''
            (Some [''input_dir'' \<mapsto> VStr ''/media'', ''output_dir'' \<mapsto> VStr ''/out'']))
       = Inr [TextContent ''text''
               (batch_message msg_batch_images_done
                  \<lparr>success = [''photo.jpg'', ''clip.mp4''], failed = [], total_count = 2\<rparr>)]
   \<and> spawned (events (snd (handle_call_tool example_world ''batch_compress_images''
            (Some [''input_dir'' \<mapsto> VStr ''/media'', ''output_dir'' \<mapsto> VStr ''/out'']))))
       = [[''ffmpeg'', ''-y'', ''-i'', ''/media/photo.jpg'', ''-q:v'', ''85'', ''/out/photo.jpg''],
          [''ffmpeg'', ''-y'', ''-i'', ''/media/clip.mp4'', ''-q:v'', ''85'', ''/out/clip.mp4'']]"
proof -
  have e: "os_path_exists example_world (VStr ''/media'') = Inr True"
    by (simp add: os_path_exists_def example_world_def)
  have d: "dir_entries example_world ''/media'' = [''photo.jpg'', ''clip.mp4'', ''doc.txt'']"
    by (simp add: example_world_def)
  have b: "call_tool_body example_world ''batch_compress_images''
             [''input_dir'' \<mapsto> VStr ''/media'', ''output_dir'' \<mapsto> VStr ''/out'']
           = batch_branch example_world (VStr ''/media'') (VStr ''/out'')
               (as_process_func (\<lambda>i out. compress_image i out (VInt 85))) msg_batch_images_done"
    by (simp add: call_tool_body_def dict_get_def dict_get_default_def)
  show ?thesis
    by (simp add: d handle_call_tool_def b batch_branch_def e media_batch)
qed

text \<open>
  C4, counterexample to the claim as stated. In \<^verbatim>\<open>/mixed\<close> the encoder fails on
  \<^verbatim>\<open>broken.jpg\<close>, so \<^verbatim>\<open>compress_image\<close> returns \<^verbatim>\<open>False\<close> for it; the entry of the
  failed list is the bare file name.
\<close>

theorem false_result_bare_name:
  "fst (batch_process_files (VStr ''/mixed'') (VStr ''/out'')
     (as_process_func (\<lambda>i out. compress_image i out (VInt 85))) example_world)
   = Inr \<lparr>success = [''good.jpg'', ''last.png''], failed = [''broken.jpg''], total_count = 3\<rparr>"
  by (simp add: batch_process_files_def mixed_files) (simp add: run_defs example_world_def)

text \<open>
  C4 (as amended). The failed list of a batch holds, in the order of processing, one
  entry for each file whose outcome was not true: the bare file name when the operation
  returned a false value, and the file name followed by \<^verbatim>\<open>": "\<close> and the message of
  the exception when the body of the \<^verbatim>\<open>try\<close> raised.
\<close>

theorem failed_entries:
  assumes "get_files_by_extension w input_dir all_extensions = Inr files"
  shows "(\<exists>r w'. batch_process_files input_dir output_dir f w = (Inr r, w')
           \<and> failed r = map failed_entry
                (filter (\<lambda>(fp, outcome). outcome \<noteq> Inr True) (outcomes f output_dir files w)))
    \<and> failed_entry (fp, Inr False) = path_name fp
    \<and> failed_entry (fp, Inl e) = path_name fp @ '': '' @ str_exn e"
  by (simp add: batch_process_files_result [OF assms] batch_loop_failed)

text \<open>
  C4, witness of the amended statement: a batch over \<^verbatim>\<open>/mixed\<close> without an output
  directory. \<^verbatim>\<open>os.path.join\<close> raises for every file and each entry carries the message.
\<close>

theorem failed_entries_witness:
  "\<exists>r w'. batch_process_files (VStr ''/mixed'') VNone
       (as_process_func (\<lambda>i out. compress_image i out (VInt 85))) example_world = (Inr r, w')
     \<and> failed r =
         [''good.jpg: expected str, bytes or os.PathLike object, not NoneType'',
          ''broken.jpg: expected str, bytes or os.PathLike object, not NoneType'',
          ''last.png: expected str, bytes or os.PathLike object, not NoneType'']"
  using failed_entries [OF mixed_files, of VNone
      "as_process_func (\<lambda>i out. compress_image i out (VInt 85))", THEN conjunct1]
  by (simp add: try_process_def os_path_join_def os_fspath_def path_name_def Path_def)

text \<open>
  C5. For every source directory given as a path, the batch returns a result whose
  total is the number of enumerated files and whose two lists together have exactly
  that many entries: every enumerated file has one outcome, the success list holds the
  names of the files whose outcome was true and the failed list the entries of all the
  others. When nothing is enumerated the result is total 0 with both lists empty, and
  no error.
\<close>

theorem batch_totals:
  "\<exists>files r w'.
     get_files_by_extension w (VStr d) all_extensions = Inr files
     \<and> batch_process_files (VStr d) output_dir f w = (Inr r, w')
     \<and> total_count r = length files
     \<and> length (success r) + length (failed r) = total_count r
     \<and> map fst (outcomes f output_dir files w) = files
     \<and> success r = map (\<lambda>(fp, outcome). path_name fp)
           (filter (\<lambda>(fp, outcome). outcome = Inr True) (outcomes f output_dir files w))
     \<and> failed r = map failed_entry
           (filter (\<lambda>(fp, outcome). outcome \<noteq> Inr True) (outcomes f output_dir files w))
     \<and> (files = [] \<longrightarrow> r = \<lparr>success = [], failed = [], total_count = 0\<rparr>)"
proof -
  obtain files where f: "get_files_by_extension w (VStr d) all_extensions = Inr files"
    using get_files_str ..
  let ?r0 = "\<lparr>success = [], failed = [], total_count = length files\<rparr>"
  let ?res = "batch_loop f output_dir files ?r0 w"
  have 1: "batch_process_files (VStr d) output_dir f w = (Inr (fst ?res), snd ?res)"
    by (rule batch_process_files_result [OF f])
  have 2: "total_count (fst ?res) = length files"
    by (simp add: batch_loop_total)
  have 3: "length (success (fst ?res)) + length (failed (fst ?res)) = total_count (fst ?res)"
    by (simp add: batch_loop_total batch_loop_lengths)
  have 4: "map fst (outcomes f output_dir files w) = files"
    by (rule outcomes_files)
  have 5: "success (fst ?res) = map (\<lambda>(fp, outcome). path_name fp)
           (filter (\<lambda>(fp, outcome). outcome = Inr True) (outcomes f output_dir files w))"
    by (simp add: batch_loop_success)
  have 6: "failed (fst ?res) = map failed_entry
           (filter (\<lambda>(fp, outcome). outcome \<noteq> Inr True) (outcomes f output_dir files w))"
    by (simp add: batch_loop_failed)
  have 7: "files = [] \<longrightarrow> fst ?res = \<lparr>success = [], failed = [], total_count = 0\<rparr>"
    by simp
  from f 1 2 3 4 5 6 7 show ?thesis by blast
qed

text \<open>C5, witness: a batch over a directory that the example world does not have.\<close>

theorem batch_totals_witness:
  "batch_process_files (VStr ''/nowhere'') (VStr ''/out'')
       (as_process_func (\<lambda>i out. compress_image i out (VInt 85))) example_world
     = (Inr \<lparr>success = [], failed = [], total_count = 0\<rparr>, example_world)"
proof -
  obtain files r w' where
    f: "get_files_by_extension example_world (VStr ''/nowhere'') all_extensions = Inr files"
    and b: "batch_process_files (VStr ''/nowhere'') (VStr ''/out'')
       (as_process_func (\<lambda>i out. compress_image i out (VInt 85))) example_world = (Inr r, w')"
    and e: "files = [] \<longrightarrow> r = \<lparr>success = [], failed = [], total_count = 0\<rparr>"
    using batch_totals [of example_world "''/nowhere''" "VStr ''/out''"
        "as_process_func (\<lambda>i out. compress_image i out (VInt 85))"]
    by blast
  from f have "files = []" by (simp add: nowhere_files)
  with e have r: "r = \<lparr>success = [], failed = [], total_count = 0\<rparr>" by simp
  have "w' = example_world"
    using b by (simp add: batch_process_files_def nowhere_files)
  with b r show ?thesis by simp
qed

text \<open>
  C6. Whatever the tool name and the arguments (also none at all), a call of the
  dispatcher returns a reply and no exception leaves it; an exception raised by the
  body of its \<^verbatim>\<open>try\<close> becomes the reply "tool execution error: " followed by the
  message of the exception.
\<close>

theorem never_raises:
  "(\<exists>reply w'. handle_call_tool w name arguments = (Inr reply, w'))
   \<and> (\<forall>e w1. call_tool_body w name (case arguments of None \<Rightarrow> Map.empty | Some a \<Rightarrow> a) = (Inl e, w1)
        \<longrightarrow> handle_call_tool w name arguments
            = (Inr [TextContent ''text'' (msg_tool_error @ str_exn e)], w1))"
proof (intro conjI allI impI)
  let ?a = "case arguments of None \<Rightarrow> Map.empty | Some a \<Rightarrow> a"
  obtain x w' where b: "call_tool_body w name ?a = (x, w')"
    by (cases "call_tool_body w name ?a")
  show "\<exists>reply w'. handle_call_tool w name arguments = (Inr reply, w')"
    using b by (cases x) (simp_all add: handle_call_tool_def)
next
  fix e w1
  assume "call_tool_body w name (case arguments of None \<Rightarrow> Map.empty | Some a \<Rightarrow> a) = (Inl e, w1)"
  then show "handle_call_tool w name arguments =
         (Inr [TextContent ''text'' (msg_tool_error @ str_exn e)], w1)"
    by (simp add: handle_call_tool_def)
qed

text \<open>
  C6, witness: \<^verbatim>\<open>compress_image\<close> without an argument dictionary. The existence check
  raises on \<^verbatim>\<open>None\<close> and the dispatcher answers with the wrapped message.
\<close>

theorem never_raises_witness:
  "call_tool_body example_world ''compress_image'' Map.empty
     = (Inl (TypeError ''stat: path should be string, bytes, os.PathLike or integer, not NoneType''),
        example_world)
   \<and> handle_call_tool example_world ''compress_image'' None
     = (Inr [TextContent ''text''
          (msg_tool_error
           @ ''stat: path should be string, bytes, os.PathLike or integer, not NoneType'')],
        example_world)"
proof -
  have b: "call_tool_body example_world ''compress_image''
             (case None of None \<Rightarrow> Map.empty | Some a \<Rightarrow> a)
     = (Inl (TypeError ''stat: path should be string, bytes, os.PathLike or integer, not NoneType''),
        example_world)"
    by (simp add: missing_input_compress_image)
  show ?thesis
    using never_raises [of example_world "''compress_image''" None, THEN conjunct2, rule_format, OF b] b
    by simp
qed

text \<open>
  C7. For every tool of the catalogue with a required input path (\<^verbatim>\<open>input_path\<close>,
  \<^verbatim>\<open>input_dir\<close> or \<^verbatim>\<open>file_path\<close>): when the argument is a path that does not exist,
  the reply is the not-found text for that kind of input followed by the path, and the
  world is returned as it was, so no process has been spawned.
\<close>

theorem input_not_found:
  assumes "t \<in> set handle_list_tools" and "p \<in> set (tool_required t)"
    and "p \<in> {''input_path'', ''input_dir'', ''file_path''}"
    and "arguments p = Some (VStr path)" and "\<not> path_exists w path"
  shows "handle_call_tool w (tool_name t) (Some arguments) =
     (Inr [TextContent ''text''
        ((if p = ''input_path'' then msg_input_file_missing
          else if p = ''input_dir'' then msg_input_dir_missing
          else msg_file_missing) @ path)], w)"
  using not_found_body [of "tool_name t" p arguments path w]
    input_param_cases [OF assms(1,2,3)] assms(4,5)
  by (simp add: handle_call_tool_def)

text \<open>C7, witness: \<^verbatim>\<open>get_media_info\<close> on a path that the example world does not have.\<close>

theorem input_not_found_witness:
  "handle_call_tool example_world ''get_media_info''
     (Some [''file_path'' \<mapsto> VStr ''/nowhere/x.mp4''])
   = (Inr [TextContent ''text'' (msg_file_missing @ ''/nowhere/x.mp4'')], example_world)"
proof -
  let ?t = "\<lparr>tool_name = ''get_media_info'',
             tool_properties = [(''file_path'', ''string'', None)],
             tool_required = [''file_path'']\<rparr>"
  have t: "?t \<in> set handle_list_tools"
    by (simp add: handle_list_tools_def)
  have r: "''file_path'' \<in> set (tool_required ?t)"
    by simp
  have m: "''file_path'' \<in> {''input_path'', ''input_dir'', ''file_path''}"
    by simp
  have a: "[''file_path'' \<mapsto> VStr ''/nowhere/x.mp4''] ''file_path'' = Some (VStr ''/nowhere/x.mp4'')"
    by simp
  have e: "\<not> path_exists example_world ''/nowhere/x.mp4''"
    by (simp add: example_world_def)
  show ?thesis
    using input_not_found [of ?t "''file_path''" "[''file_path'' \<mapsto> VStr ''/nowhere/x.mp4'']"
        "''/nowhere/x.mp4''" example_world, OF t r m a e]
    by simp
qed

text \<open>
  C8. When the \<^verbatim>\<open>try\<close> body fails on a file (it returns a false value or raises) after
  any files \<open>pre\<close> and before any files \<open>post\<close>, the loop appends the entry of that file
  to the failed list and goes on with all of \<open>post\<close> from there; the result has one
  entry for every file, and the final world is the one reached by running the body on
  every file in order.
\<close>

theorem batch_continues_after_failure:
  assumes "batch_loop f out pre r w = (r1, w1)"
    and "try_process f out fp w1 = (outcome, w2)"
    and "outcome \<noteq> Inr True"
  shows "batch_loop f out (pre @ fp # post) r w
           = batch_loop f out post (r1\<lparr>failed := failed r1 @ [failed_entry (fp, outcome)]\<rparr>) w2
    \<and> length (success (fst (batch_loop f out (pre @ fp # post) r w)))
        + length (failed (fst (batch_loop f out (pre @ fp # post) r w)))
       = length (success r) + length (failed r) + length pre + 1 + length post
    \<and> snd (batch_loop f out (pre @ fp # post) r w)
       = foldl (\<lambda>w fp. snd (try_process f out fp w)) w (pre @ fp # post)"
proof (intro conjI)
  show "batch_loop f out (pre @ fp # post) r w
           = batch_loop f out post (r1\<lparr>failed := failed r1 @ [failed_entry (fp, outcome)]\<rparr>) w2"
    unfolding batch_loop_append assms(1) prod.case batch_loop_step [OF assms(2)]
    using assms(3) by simp
  show "length (success (fst (batch_loop f out (pre @ fp # post) r w)))
        + length (failed (fst (batch_loop f out (pre @ fp # post) r w)))
       = length (success r) + length (failed r) + length pre + 1 + length post"
    by (simp add: batch_loop_lengths)
  show "snd (batch_loop f out (pre @ fp # post) r w)
       = foldl (\<lambda>w fp. snd (try_process f out fp w)) w (pre @ fp # post)"
    by (rule batch_loop_world)
qed

text \<open>
  C8, witness: the batch over \<^verbatim>\<open>/mixed\<close>, where \<^verbatim>\<open>broken.jpg\<close> fails in the middle and
  \<^verbatim>\<open>last.png\<close> is encoded after it.
\<close>

theorem batch_continues_after_failure_witness:
  "fst (batch_loop (as_process_func (\<lambda>i out. compress_image i out (VInt 85))) (VStr ''/out'')
          [''/mixed/good.jpg'', ''/mixed/broken.jpg'', ''/mixed/last.png'']
          \<lparr>success = [], failed = [], total_count = 3\<rparr> example_world)
     = \<lparr>success = [''good.jpg'', ''last.png''], failed = [''broken.jpg''], total_count = 3\<rparr>
   \<and> spawned (events (snd (batch_loop (as_process_func (\<lambda>i out. compress_image i out (VInt 85)))
          (VStr ''/out'') [''/mixed/good.jpg'', ''/mixed/broken.jpg'', ''/mixed/last.png'']
          \<lparr>success = [], failed = [], total_count = 3\<rparr> example_world)))
     = [[''ffmpeg'', ''-y'', ''-i'', ''/mixed/good.jpg'', ''-q:v'', ''85'', ''/out/good.jpg''],
        [''ffmpeg'', ''-y'', ''-i'', ''/mixed/broken.jpg'', ''-q:v'', ''85'', ''/out/broken.jpg''],
        [''ffmpeg'', ''-y'', ''-i'', ''/mixed/last.png'', ''-q:v'', ''85'', ''/out/last.png'']]"
proof -
  let ?f = "as_process_func (\<lambda>i out. compress_image i out (VInt 85))"
  let ?r0 = "\<lparr>success = [], failed = [], total_count = 3\<rparr>"
  let ?r1 = "\<lparr>success = [''good.jpg''], failed = [], total_count = 3\<rparr>"
  let ?r2 = "\<lparr>success = [''good.jpg''], failed = [''broken.jpg''], total_count = 3\<rparr>"
  let ?r3 = "\<lparr>success = [''good.jpg'', ''last.png''], failed = [''broken.jpg''], total_count = 3\<rparr>"
  let ?good = "[''ffmpeg'', ''-y'', ''-i'', ''/mixed/good.jpg'', ''-q:v'', ''85'', ''/out/good.jpg'']"
  let ?broken = "[''ffmpeg'', ''-y'', ''-i'', ''/mixed/broken.jpg'', ''-q:v'', ''85'', ''/out/broken.jpg'']"
  let ?last = "[''ffmpeg'', ''-y'', ''-i'', ''/mixed/last.png'', ''-q:v'', ''85'', ''/out/last.png'']"
  let ?w1 = "example_world\<lparr>events := [Mkdirs ''/out'', Spawn ?good]\<rparr>"
  let ?w2 = "example_world\<lparr>events := [Mkdirs ''/out'', Spawn ?good, Mkdirs ''/out'', Spawn ?broken]\<rparr>"
  let ?w3 = "example_world\<lparr>events := [Mkdirs ''/out'', Spawn ?good, Mkdirs ''/out'', Spawn ?broken,
                                        Mkdirs ''/out'', Spawn ?last]\<rparr>"
  have pre: "batch_loop ?f (VStr ''/out'') [''/mixed/good.jpg''] ?r0 example_world = (?r1, ?w1)"
    by (simp add: run_defs example_world_def)
  have bad: "try_process ?f (VStr ''/out'') ''/mixed/broken.jpg'' ?w1 = (Inr False, ?w2)"
    by (simp add: run_defs example_world_def)
  have ne: "(Inr False :: exn + bool) \<noteq> Inr True"
    by simp
  have upd: "?r1\<lparr>failed := failed ?r1 @ [failed_entry (''/mixed/broken.jpg'', Inr False)]\<rparr> = ?r2"
    by (simp add: path_name_def Path_def)
  have post: "batch_loop ?f (VStr ''/out'') [''/mixed/last.png''] ?r2 ?w2 = (?r3, ?w3)"
    by (simp add: run_defs example_world_def)
  have split: "[''/mixed/good.jpg'', ''/mixed/broken.jpg'', ''/mixed/last.png'']
               = [''/mixed/good.jpg''] @ ''/mixed/broken.jpg'' # [''/mixed/last.png'']"
    by simp
  have "batch_loop ?f (VStr ''/out'') ([''/mixed/good.jpg''] @ ''/mixed/broken.jpg'' # [''/mixed/last.png''])
          ?r0 example_world
        = batch_loop ?f (VStr ''/out'') [''/mixed/last.png'']
            (?r1\<lparr>failed := failed ?r1 @ [failed_entry (''/mixed/broken.jpg'', Inr False)]\<rparr>) ?w2"
    using batch_continues_after_failure [OF pre bad ne, of "[''/mixed/last.png'']"]
    by (rule conjunct1)
  then have run: "batch_loop ?f (VStr ''/out'')
          [''/mixed/good.jpg'', ''/mixed/broken.jpg'', ''/mixed/last.png''] ?r0 example_world
        = (?r3, ?w3)"
    unfolding upd post split [symmetric] .
  show ?thesis
    unfolding run by (simp add: example_world_def)
qed

text \<open>
  C9. Every call of the dispatcher, for any tool name and any arguments, returns a
  list of exactly one content item, and that item is a text item.
\<close>

theorem one_text_item:
  "\<exists>t w'. handle_call_tool w name arguments = (Inr [TextContent ''text'' t], w')"
proof -
  obtain t where "fst (handle_call_tool w name arguments) = Inr [TextContent ''text'' t]"
    using reply_shape [of w name arguments] ..
  then have "handle_call_tool w name arguments
             = (Inr [TextContent ''text'' t], snd (handle_call_tool w name arguments))"
    by (simp add: prod_eq_iff)
  then show ?thesis by blast
qed

text \<open>
  C10. For each of the six transcoding functions: when the output path has no
  directory part (it holds no slash), the function returns \<^verbatim>\<open>False\<close> and hands no
  command to the operating system, because creating the empty directory name raises.
\<close>

theorem bare_output_name_fails:
  assumes "CHR ''/'' \<notin> set output_path"
  shows "(fst (compress_image input_path (VStr output_path) quality w) = False
          \<and> spawned (events (snd (compress_image input_path (VStr output_path) quality w)))
              = spawned (events w))
       \<and> (fst (convert_image_format input_path (VStr output_path) w) = False
          \<and> spawned (events (snd (convert_image_format input_path (VStr output_path) w)))
              = spawned (events w))
       \<and> (fst (resize_image input_path (VStr output_path) width height w) = False
          \<and> spawned (events (snd (resize_image input_path (VStr output_path) width height w)))
              = spawned (events w))
       \<and> (fst (compress_video input_path (VStr output_path) crf preset w) = False
          \<and> spawned (events (snd (compress_video input_path (VStr output_path) crf preset w)))
              = spawned (events w))
       \<and> (fst (convert_video_format input_path (VStr output_path) w) = False
          \<and> spawned (events (snd (convert_video_format input_path (VStr output_path) w)))
              = spawned (events w))
       \<and> (fst (resize_video input_path (VStr output_path) width height w) = False
          \<and> spawned (events (snd (resize_video input_path (VStr output_path) width height w)))
              = spawned (events w))"
  unfolding compress_image_def convert_image_format_def resize_image_def compress_video_def
    convert_video_format_def resize_video_def
  by (intro conjI bare_no_spawn [OF assms, THEN conjunct1] bare_no_spawn [OF assms, THEN conjunct2])

text \<open>C10, witness: compressing an image and resizing a video to a bare file name.\<close>

theorem bare_output_name_fails_witness:
  "fst (compress_image (VStr ''/media/photo.jpg'') (VStr ''out.jpg'') (VInt 85) example_world) = False
   \<and> spawned (events (snd (compress_image (VStr ''/media/photo.jpg'') (VStr ''out.jpg'') (VInt 85)
         example_world))) = []
   \<and> fst (resize_video (VStr ''/media/photo.jpg'') (VStr ''out.jpg'') (VInt 100) (VInt 50)
         example_world) = False
   \<and> spawned (events (snd (resize_video (VStr ''/media/photo.jpg'') (VStr ''out.jpg'') (VInt 100)
         (VInt 50) example_world))) = []"
proof -
  have a: "CHR ''/'' \<notin> set ''out.jpg''" by simp
  have e: "spawned (events example_world) = []" by (simp add: example_world_def)
  show ?thesis
    using bare_output_name_fails [OF a, where input_path = "VStr ''/media/photo.jpg''"
        and quality = "VInt 85" and w = example_world and width = "VInt 100" and height = "VInt 50"
        and crf = "VInt 23" and preset = "VStr ''medium''"]
    by (simp add: e)
qed

end
